theory Spec2Isabelle
  imports Main "HOL-Library.AList" "HOL-Library.FSet" "HOL-Library.Sublist"
begin

section \<open>Python strings and integers\<close>

text \<open>
  Text is the list of its UTF-8 bytes. The conversions below are the ones \<^verbatim>\<open>bot.py\<close>
  relies on: \<^verbatim>\<open>int(text)\<close>, \<^verbatim>\<open>str(n)\<close>, \<^verbatim>\<open>startswith\<close>,
  \<^verbatim>\<open>split\<close> and \<^verbatim>\<open>os.path.dirname\<close>. \<^verbatim>\<open>int\<close> is modelled on ASCII text:
  surrounding whitespace (tab, line feed, vertical tab, form feed, carriage return,
  space) is stripped, one sign is allowed, and single underscores may separate digits.
  (Python also accepts the decimal digits and the spaces of other scripts; a text
  with such characters is outside this model.)
\<close>

datatype error = ValueError | IndexError | FileNotFoundError

definition py_isspace :: "char \<Rightarrow> bool" where
  "py_isspace c \<longleftrightarrow> (of_char c :: nat) \<in> {9, 10, 11, 12, 13, 32}"

definition strip :: "string \<Rightarrow> string" where
  "strip s = rev (dropWhile py_isspace (rev (dropWhile py_isspace s)))"

definition digit_val :: "char \<Rightarrow> nat option" where
  "digit_val c = (let n = (of_char c :: nat) in if 48 \<le> n \<and> n \<le> 57 then Some (n - 48) else None)"

fun parse_digits :: "string \<Rightarrow> nat \<Rightarrow> nat option" where
  "parse_digits [] acc = Some acc"
| "parse_digits [c] acc =
     (case digit_val c of None \<Rightarrow> None | Some v \<Rightarrow> Some (acc * 10 + v))"
| "parse_digits (c # d # ds) acc =
     (if c = CHR ''_''
      then (case digit_val d of None \<Rightarrow> None | Some v \<Rightarrow> parse_digits ds (acc * 10 + v))
      else (case digit_val c of None \<Rightarrow> None | Some v \<Rightarrow> parse_digits (d # ds) (acc * 10 + v)))"

definition parse_nat :: "string \<Rightarrow> nat option" where
  "parse_nat s =
     (case s of [] \<Rightarrow> None
      | c # cs \<Rightarrow> (case digit_val c of None \<Rightarrow> None | Some v \<Rightarrow> parse_digits cs v))"

definition py_int :: "string \<Rightarrow> int option" where
  "py_int t =
     (case strip t of [] \<Rightarrow> None
      | c # cs \<Rightarrow>
          if c = CHR ''-'' then map_option (\<lambda>n. - int n) (parse_nat cs)
          else if c = CHR ''+'' then map_option int (parse_nat cs)
          else map_option int (parse_nat (c # cs)))"

fun digits :: "nat \<Rightarrow> string" where
  "digits n = (if n < 10 then [char_of (48 + n)] else digits (n div 10) @ [char_of (48 + n mod 10)])"

declare digits.simps [simp del]

definition py_str :: "int \<Rightarrow> string" where
  "py_str i = (if i < 0 then CHR ''-'' # digits (nat (- i)) else digits (nat i))"

definition startswith :: "string \<Rightarrow> string \<Rightarrow> bool" where
  "startswith s pre \<longleftrightarrow> take (length pre) s = pre"

text \<open>\<^verbatim>\<open>s.split('_')[-1]\<close>: what follows the last underscore.\<close>

definition last_segment :: "string \<Rightarrow> string" where
  "last_segment s = rev (takeWhile (\<lambda>c. c \<noteq> CHR ''_'') (rev s))"

text \<open>
  \<^verbatim>\<open>s.split(sep)\<close> for a non-empty separator, as far as the source indexes it: the first
  occurrence of \<open>sep\<close> cuts \<open>s\<close> in two. \<^verbatim>\<open>s.split(sep)[1]\<close> raises IndexError when
  \<open>sep\<close> does not occur, and \<^verbatim>\<open>s.split(sep)[0]\<close> is all of \<open>s\<close> then.
\<close>

fun find_sep :: "string \<Rightarrow> string \<Rightarrow> (string \<times> string) option" where
  "find_sep sep [] = None"
| "find_sep sep (c # cs) =
     (if startswith (c # cs) sep then Some ([], drop (length sep) (c # cs))
      else map_option (\<lambda>(b, a). (c # b, a)) (find_sep sep cs))"

definition split_0 :: "string \<Rightarrow> string \<Rightarrow> string" where
  "split_0 sep s = (case find_sep sep s of None \<Rightarrow> s | Some (b, a) \<Rightarrow> b)"

definition split_1 :: "string \<Rightarrow> string \<Rightarrow> error + string" where
  "split_1 sep s = (case find_sep sep s of None \<Rightarrow> Inl IndexError | Some (b, a) \<Rightarrow> Inr (split_0 sep a))"

text \<open>\<^verbatim>\<open>os.path.dirname\<close> of \<^verbatim>\<open>posixpath\<close>.\<close>

definition dirname :: "string \<Rightarrow> string" where
  "dirname p =
     (let head = rev (dropWhile (\<lambda>c. c \<noteq> CHR ''/'') (rev p))
      in if head \<noteq> [] \<and> \<not> list_all (\<lambda>c. c = CHR ''/'') head
         then rev (dropWhile (\<lambda>c. c = CHR ''/'') (rev head))
         else head)"

text \<open>
  \<^verbatim>\<open>os.makedirs(name, exist_ok=True)\<close>: the empty path cannot be created and raises
  FileNotFoundError. Permissions and a full disk are not modelled: every other
  directory can be made, and every file opened for writing.
\<close>

definition makedirs :: "string \<Rightarrow> error + unit" where
  "makedirs name = (if name = [] then Inl FileNotFoundError else Inr ())"

section \<open>Configuration, registry and snapshot file\<close>

text \<open>
  The module-level configuration read from the environment. \<open>ENV_ADMIN_IDS\<close> is the
  list parsed from the variable \<^verbatim>\<open>ADMIN_IDS\<close>; an unset \<^verbatim>\<open>OWNER_ID\<close> is 0.
\<close>

record config =
  OWNER_ID :: int
  ENV_ADMIN_IDS :: "int list"
  MANDATORY_CHANNEL_ID :: int
  LOG_CHANNEL_ID :: int
  DATA_FILE :: string

text \<open>\<^verbatim>\<open>ChatMember\<close> statuses and \<^verbatim>\<open>ChatType\<close>.\<close>

datatype status = OWNER | ADMINISTRATOR | MEMBER | RESTRICTED | LEFT | BANNED

datatype chat_type = PRIVATE | GROUP | SUPERGROUP | CHANNEL

text \<open>The sender of an update (\<^verbatim>\<open>update.effective_user\<close>).\<close>

record tg_user =
  uid :: int
  u_first_name :: string
  u_full_name :: string
  u_username :: "string option"

text \<open>A value of \<^verbatim>\<open>USER_DATA\<close>.\<close>

record user_info =
  full_name :: string
  username :: "string option"

text \<open>
  The pending wizard step of one user, \<^verbatim>\<open>context.user_data['next_step']\<close>: the thirteen
  strings the source stores there. \<open>wizard\<close> is one user's \<^verbatim>\<open>context.user_data\<close>, each
  key present (\<open>Some\<close>) or absent.
\<close>

datatype step =
    awaiting_broadcast_message
  | awaiting_post_message
  | awaiting_add_admin_id
  | awaiting_remove_admin_id
  | awaiting_block_user_id
  | awaiting_unblock_user_id
  | awaiting_free_channel_name
  | awaiting_free_channel_link
  | awaiting_free_channel_chat_id
  | awaiting_remove_free_channel_num
  | awaiting_paid_channel_name
  | awaiting_paid_channel_link
  | awaiting_remove_paid_channel_num

record wizard =
  next_step :: "step option"
  new_channel_name :: "string option"
  new_channel_link :: "string option"

definition no_wizard :: wizard where
  "no_wizard = \<lparr>next_step = None, new_channel_name = None, new_channel_link = None\<rparr>"

text \<open>
  The snapshot file is a JSON object; each of its six keys may be missing, and the
  value of a key has the type \<^verbatim>\<open>save_data\<close> writes. Keys of a JSON object are
  strings. A file that is not JSON is \<open>Unreadable\<close>.
\<close>

record snapshot =
  doc_ADMIN_IDS :: "int list option"
  doc_FREE_CHANNELS :: "(string \<times> string) list option"
  doc_FREE_CHANNEL_LINKS :: "(string \<times> string) list option"
  doc_PAID_CHANNELS :: "string list option"
  doc_BLOCKED_USER_IDS :: "int list option"
  doc_ACTIVE_CHATS :: "(string \<times> string option) list option"

datatype filedata = Unreadable | Doc snapshot

section \<open>Messages and calls to the platform\<close>

text \<open>
  The texts and keyboards the bot sends, one constructor for each message of the source,
  with the values the source formats into it. The wording itself is not modelled.
  \<open>screen\<close> are the menus and lists, \<open>notice\<close> the short answers and plain texts,
  \<open>user_reply\<close> and \<open>channel_reply\<close> the replies of the text-input wizards.
\<close>

datatype screen =
    Owner_Menu
  | Admin_Menu
  | Member_Menu string
  | Join_Prompt string
  | Admin_Panel bool
  | Owner_Panel
  | Prompt step
  | Manage_Free
  | Manage_Paid
  | Manage_Users
  | Admin_List int "int list"
  | User_List "(int \<times> user_info) list"
  | No_Users_But_Admins
  | No_Users
  | Blocked_List "int fset"
  | Nobody_Blocked
  | Bot_Stats nat nat int nat
  | Join_List "(int \<times> string option) list"
  | Free_List_Admin "(string \<times> string) list"
  | Free_List_Admin_Empty
  | Paid_List_Admin "string list"
  | Paid_List_Admin_Empty
  | Free_Channels_Menu "(int \<times> string) list"
  | Paid_Channels_Menu "(error + string) list"

datatype notice =
    Help_Admin
  | Help_Member
  | Help_Non_Member
  | Id_Private int
  | Id_Chat chat_type int
  | You_Are_Blocked
  | Checking
  | Thanks_Welcome
  | Not_Joined_Yet
  | Your_Id int
  | Left_Chat int
  | Leave_Failed
  | Join_Free_Link string
  | No_Link_For_Channel
  | Join_Paid_Link string
  | Paid_Link_Not_Found
  | User_Text string

datatype user_reply =
    Broadcast_Starting nat
  | Broadcast_Done nat nat
  | Post_Report nat "int list"
  | Admin_Added int
  | Already_Admin
  | Cannot_Remove_Owner
  | Admin_Removed int
  | Not_An_Admin
  | Cannot_Block_Admin
  | User_Blocked int
  | User_Unblocked int
  | Not_In_Block_List
  | Invalid_User_Id

datatype channel_reply =
    Name_Set_Send_Link
  | Link_Set_Send_Chat_Id
  | Invalid_Chat_Id_Prefix
  | Free_Channel_Added string
  | Info_Missing_Restart
  | Invalid_Chat_Id_Not_Number
  | Free_Channel_Removed string
  | Invalid_Number
  | Send_A_Number
  | Paid_Send_Link
  | Paid_Channel_Added string
  | Paid_Entry_Removed string

datatype msg = Screen screen | Notice notice | Users user_reply | Channels channel_reply

text \<open>
  The outbound calls, in the order a handler issues them. \<open>Reply\<close> is
  \<^verbatim>\<open>update.message.reply_text\<close> or \<^verbatim>\<open>reply_html\<close>; \<open>Answer m alert\<close> is
  \<^verbatim>\<open>query.answer(m, show_alert=alert)\<close>; \<open>EditMessageText\<close> and \<open>DeleteMessage\<close> act
  on the message that carries the pressed button.
\<close>

datatype call =
    GetChatMember int int
  | BanChatMember int int
  | UnbanChatMember int int
  | LeaveChat int
  | SendMessage int msg
  | Reply msg
  | Answer "msg option" bool
  | EditMessageText msg
  | DeleteMessage

text \<open>
  What the platform answers to the calls the source wraps in \<^verbatim>\<open>try\<close>:
  \<open>get_chat_member\<close> gives a status or raises (\<open>None\<close>); the others return (\<open>True\<close>)
  or raise (\<open>False\<close>). A call outside every \<^verbatim>\<open>try\<close> is recorded and taken to return.
\<close>

record platform =
  get_chat_member :: "int \<Rightarrow> int \<Rightarrow> status option"
  ban_chat_member :: "int \<Rightarrow> int \<Rightarrow> bool"
  unban_chat_member :: "int \<Rightarrow> int \<Rightarrow> bool"
  send_message :: "int \<Rightarrow> bool"
  leave_chat :: "int \<Rightarrow> bool"

section \<open>The state\<close>

text \<open>
  The module globals, the per-user \<^verbatim>\<open>context.user_data\<close>, the files on disk and the
  calls made so far. A Python dict is an association list with distinct keys in
  insertion order: \<open>AList.update\<close> is \<^verbatim>\<open>d[k] = v\<close>, \<open>AList.delete\<close> is \<^verbatim>\<open>d.pop(k)\<close>,
  \<open>map_of\<close> is \<^verbatim>\<open>d.get(k)\<close>.
\<close>

record world =
  ADMIN_IDS :: "int list"
  FREE_CHANNELS :: "(int \<times> string) list"
  FREE_CHANNEL_LINKS :: "(int \<times> string) list"
  PAID_CHANNELS :: "string list"
  USER_DATA :: "(int \<times> user_info) list"
  BLOCKED_USER_IDS :: "int fset"
  ACTIVE_CHATS :: "(int \<times> string option) list"
  user_data :: "int \<Rightarrow> wizard"
  disk :: "string \<Rightarrow> filedata option"
  sent :: "call list"

definition emit :: "call \<Rightarrow> world \<Rightarrow> world" where
  "emit c w = w\<lparr>sent := sent w @ [c]\<rparr>"

definition set_wizard :: "int \<Rightarrow> (wizard \<Rightarrow> wizard) \<Rightarrow> world \<Rightarrow> world" where
  "set_wizard u f w = w\<lparr>user_data := (user_data w)(u := f (user_data w u))\<rparr>"

text \<open>
  Lines 69--81: the globals of a process that has just started, on the disk \<open>d\<close> it
  finds. The owner is appended to the admins when \<^verbatim>\<open>OWNER_ID\<close> is set (not 0).
\<close>

definition module_init :: "config \<Rightarrow> (string \<Rightarrow> filedata option) \<Rightarrow> world" where
  "module_init cfg d =
     \<lparr>ADMIN_IDS =
        (if OWNER_ID cfg \<noteq> 0 \<and> OWNER_ID cfg \<notin> set (ENV_ADMIN_IDS cfg)
         then ENV_ADMIN_IDS cfg @ [OWNER_ID cfg] else ENV_ADMIN_IDS cfg),
      FREE_CHANNELS = [], FREE_CHANNEL_LINKS = [], PAID_CHANNELS = [], USER_DATA = [],
      BLOCKED_USER_IDS = {||}, ACTIVE_CHATS = [],
      user_data = (\<lambda>u. no_wizard), disk = d, sent = []\<rparr>"

subsection \<open>\<^verbatim>\<open>save_data\<close> and \<^verbatim>\<open>load_data\<close>\<close>

text \<open>
  \<^verbatim>\<open>json.dump\<close> writes the integer keys of a dict as strings. The order in which a
  Python set is listed is not specified; the sorted order stands for it.
\<close>

definition str_keys :: "(int \<times> 'v) list \<Rightarrow> (string \<times> 'v) list" where
  "str_keys kvs = map (\<lambda>(k, v). (py_str k, v)) kvs"

definition snapshot_of :: "world \<Rightarrow> snapshot" where
  "snapshot_of w =
     \<lparr>doc_ADMIN_IDS = Some (ADMIN_IDS w),
      doc_FREE_CHANNELS = Some (str_keys (FREE_CHANNELS w)),
      doc_FREE_CHANNEL_LINKS = Some (str_keys (FREE_CHANNEL_LINKS w)),
      doc_PAID_CHANNELS = Some (PAID_CHANNELS w),
      doc_BLOCKED_USER_IDS = Some (sorted_list_of_fset (BLOCKED_USER_IDS w)),
      doc_ACTIVE_CHATS = Some (str_keys (ACTIVE_CHATS w))\<rparr>"

text \<open>
  Lines 89--106. Every exception inside is caught and logged: when \<^verbatim>\<open>os.makedirs\<close>
  raises, nothing is written.
\<close>

definition save_data :: "config \<Rightarrow> world \<Rightarrow> world" where
  "save_data cfg w =
     (case makedirs (dirname (DATA_FILE cfg)) of
        Inl e \<Rightarrow> w
      | Inr u \<Rightarrow> w\<lparr>disk := (disk w)(DATA_FILE cfg \<mapsto> Doc (snapshot_of w))\<rparr>)"

text \<open>
  \<^verbatim>\<open>{int(k): v for k, v in items}\<close>: \<open>None\<close> when some key is not an integer
  (ValueError).
\<close>

fun int_keys :: "(string \<times> 'v) list \<Rightarrow> (int \<times> 'v) list \<Rightarrow> (int \<times> 'v) list option" where
  "int_keys [] acc = Some acc"
| "int_keys ((k, v) # kvs) acc =
     (case py_int k of None \<Rightarrow> None | Some i \<Rightarrow> int_keys kvs (AList.update i v acc))"

definition get_or :: "'a option \<Rightarrow> 'a \<Rightarrow> 'a" where
  "get_or x d = (case x of None \<Rightarrow> d | Some v \<Rightarrow> v)"

text \<open>
  Lines 108--125. The globals are assigned one after the other, so an exception in a
  later assignment leaves the earlier ones done. A missing file makes \<^verbatim>\<open>load_data\<close>
  call \<^verbatim>\<open>save_data\<close>; any other exception is logged.
\<close>

definition load_data :: "config \<Rightarrow> world \<Rightarrow> world" where
  "load_data cfg w =
     (case disk w (DATA_FILE cfg) of
        None \<Rightarrow> save_data cfg w
      | Some Unreadable \<Rightarrow> w
      | Some (Doc d) \<Rightarrow>
          (let w1 = w\<lparr>ADMIN_IDS := get_or (doc_ADMIN_IDS d) (ADMIN_IDS w)\<rparr> in
           case int_keys (get_or (doc_FREE_CHANNELS d) []) [] of
             None \<Rightarrow> w1
           | Some fc \<Rightarrow>
               (let w2 = w1\<lparr>FREE_CHANNELS := fc\<rparr> in
                case int_keys (get_or (doc_FREE_CHANNEL_LINKS d) []) [] of
                  None \<Rightarrow> w2
                | Some fl \<Rightarrow>
                    (let w3 = w2\<lparr>FREE_CHANNEL_LINKS := fl,
                                 PAID_CHANNELS := get_or (doc_PAID_CHANNELS d) [],
                                 BLOCKED_USER_IDS := fset_of_list (get_or (doc_BLOCKED_USER_IDS d) [])\<rparr> in
                     case int_keys (get_or (doc_ACTIVE_CHATS d) []) [] of
                       None \<Rightarrow> w3
                     | Some ac \<Rightarrow> w3\<lparr>ACTIVE_CHATS := ac\<rparr>))))"

text \<open>\<^verbatim>\<open>main\<close> up to the first update: a fresh process loads the snapshot.\<close>

definition startup :: "config \<Rightarrow> (string \<Rightarrow> filedata option) \<Rightarrow> world" where
  "startup cfg d = load_data cfg (module_init cfg d)"

section \<open>Permission checks and helpers\<close>

definition is_owner :: "config \<Rightarrow> int \<Rightarrow> bool" where
  "is_owner cfg user \<longleftrightarrow> user = OWNER_ID cfg"

definition is_admin :: "world \<Rightarrow> int \<Rightarrow> bool" where
  "is_admin w user \<longleftrightarrow> user \<in> set (ADMIN_IDS w)"

text \<open>
  The three roles the handlers tell apart, in the order of the \<^verbatim>\<open>if\<close>/\<^verbatim>\<open>elif\<close> chain
  of \<^verbatim>\<open>start_command\<close> (lines 211--217).
\<close>

datatype role = Owner | Admin | Regular

definition classify :: "config \<Rightarrow> world \<Rightarrow> int \<Rightarrow> role" where
  "classify cfg w user =
     (if is_owner cfg user then Owner else if is_admin w user then Admin else Regular)"

definition member_like :: "status \<Rightarrow> bool" where
  "member_like st \<longleftrightarrow> st = OWNER \<or> st = ADMINISTRATOR \<or> st = MEMBER"

text \<open>Lines 133--140: the result and the world after the call, if one was made.\<close>

definition is_user_member_of_channel :: "config \<Rightarrow> platform \<Rightarrow> int \<Rightarrow> world \<Rightarrow> bool \<times> world" where
  "is_user_member_of_channel cfg p user w =
     (if is_admin w user then (True, w)
      else (let w1 = emit (GetChatMember (MANDATORY_CHANNEL_ID cfg) user) w in
            case get_chat_member p (MANDATORY_CHANNEL_ID cfg) user of
              None \<Rightarrow> (False, w1)
            | Some st \<Rightarrow> (member_like st, w1)))"

text \<open>
  Lines 142--152. The ban and the unban of one channel share a \<^verbatim>\<open>try\<close>: a ban that
  raises skips the unban of that channel, an unban that raises is caught in the same
  way, and in every case the loop goes on with the next channel. Only the log line
  differs between the unban that returns and the one that raises.
\<close>

fun kick_loop :: "platform \<Rightarrow> int \<Rightarrow> int list \<Rightarrow> world \<Rightarrow> world" where
  "kick_loop p user [] w = w"
| "kick_loop p user (channel_id # rest) w =
     (let w1 = emit (BanChatMember channel_id user) w in
      if ban_chat_member p channel_id user
      then (let w2 = emit (UnbanChatMember channel_id user) w1 in
            if unban_chat_member p channel_id user then kick_loop p user rest w2
            else kick_loop p user rest w2)
      else kick_loop p user rest w1)"

definition remove_user_from_free_channels :: "platform \<Rightarrow> int \<Rightarrow> world \<Rightarrow> world" where
  "remove_user_from_free_channels p user w =
     (if is_admin w user then w else kick_loop p user (map fst (FREE_CHANNELS w)) w)"

section \<open>Commands\<close>

text \<open>
  The handlers of commands, button presses and text messages follow. The two
  chat-member handlers (lines 156--201) take no part in the properties below and are
  not modelled; logging is left out throughout.
\<close>

text \<open>
  Lines 204--233. An update may come without a sender (\<open>None\<close>). The directory entry
  of the sender is written before the role is looked at.
\<close>

definition start_command :: "config \<Rightarrow> platform \<Rightarrow> tg_user option \<Rightarrow> world \<Rightarrow> world" where
  "start_command cfg p user w =
     (case user of
        None \<Rightarrow> w
      | Some u \<Rightarrow>
          if uid u |\<in>| BLOCKED_USER_IDS w then w
          else
            (let w1 = w\<lparr>USER_DATA :=
                         AList.update (uid u) \<lparr>full_name = u_full_name u, username = u_username u\<rparr>
                           (USER_DATA w)\<rparr>
             in case classify cfg w1 (uid u) of
                  Owner \<Rightarrow> emit (Reply (Screen Owner_Menu)) w1
                | Admin \<Rightarrow> emit (Reply (Screen Admin_Menu)) w1
                | Regular \<Rightarrow>
                    (case is_user_member_of_channel cfg p (uid u) w1 of
                       (is_member, w2) \<Rightarrow>
                         if is_member then emit (Reply (Screen (Member_Menu (u_first_name u)))) w2
                         else
                           (let w3 = (if uid u \<in> set (map fst (USER_DATA w2))
                                      then remove_user_from_free_channels p (uid u) w2
                                      else w2)
                            in emit (Reply (Screen (Join_Prompt (u_first_name u)))) w3))))"

text \<open>Lines 235--248.\<close>

definition help_command :: "config \<Rightarrow> platform \<Rightarrow> tg_user option \<Rightarrow> world \<Rightarrow> world" where
  "help_command cfg p user w =
     (case user of
        None \<Rightarrow> w
      | Some u \<Rightarrow>
          if uid u |\<in>| BLOCKED_USER_IDS w then w
          else if is_admin w (uid u) then emit (Reply (Notice Help_Admin)) w
          else
            (case is_user_member_of_channel cfg p (uid u) w of
               (is_member, w1) \<Rightarrow>
                 if is_member then emit (Reply (Notice Help_Member)) w1
                 else emit (Reply (Notice Help_Non_Member)) w1))"

text \<open>Lines 250--259. The chat of the update (\<^verbatim>\<open>update.effective_chat\<close>).\<close>

record tg_chat =
  chat_id :: int
  chat_kind :: chat_type

definition id_command :: "tg_chat option \<Rightarrow> tg_user option \<Rightarrow> world \<Rightarrow> world" where
  "id_command chat user w =
     (case user of
        None \<Rightarrow> w
      | Some u \<Rightarrow>
          (case chat of
             None \<Rightarrow> w
           | Some c \<Rightarrow>
               if chat_kind c = PRIVATE then emit (Reply (Notice (Id_Private (uid u)))) w
               else emit (Reply (Notice (Id_Chat (chat_kind c) (chat_id c)))) w))"

section \<open>Button presses\<close>

text \<open>
  Lines 261--513, branch by branch. The result carries the exception that leaves the
  handler, if any: \<^verbatim>\<open>int(...)\<close> of a malformed token raises ValueError outside every
  \<^verbatim>\<open>try\<close>. What was done before it stays done.
\<close>

text \<open>Lines 269--282.\<close>

definition verify_join :: "config \<Rightarrow> platform \<Rightarrow> tg_user \<Rightarrow> world \<Rightarrow> world" where
  "verify_join cfg p from_user w =
     (case is_user_member_of_channel cfg p (uid from_user) (emit (Answer (Some (Notice Checking)) False) w) of
        (is_member, w1) \<Rightarrow>
          if is_member
          then emit (EditMessageText (Screen (Member_Menu (u_first_name from_user))))
                 (emit (Answer (Some (Notice Thanks_Welcome)) False) w1)
          else emit (Answer (Some (Notice Not_Joined_Yet)) True) w1)"

text \<open>Lines 290--308.\<close>

definition leave_chat_action :: "config \<Rightarrow> platform \<Rightarrow> int \<Rightarrow> string \<Rightarrow> world \<Rightarrow> error option \<times> world" where
  "leave_chat_action cfg p user dat w =
     (if \<not> is_owner cfg user then (None, w)
      else
        case py_int (last_segment dat) of
          None \<Rightarrow> (Some ValueError, w)
        | Some chat_id_to_leave \<Rightarrow>
            (let w1 = emit (LeaveChat chat_id_to_leave) w in
             if leave_chat p chat_id_to_leave
             then
               (let w2 = emit (Answer (Some (Notice (Left_Chat chat_id_to_leave))) False) w1;
                    w3 = (if chat_id_to_leave \<in> set (map fst (ACTIVE_CHATS w2))
                          then save_data cfg
                                 (w2\<lparr>ACTIVE_CHATS := AList.delete chat_id_to_leave (ACTIVE_CHATS w2)\<rparr>)
                          else w2)
                in (None, emit (EditMessageText (Screen (Join_List (ACTIVE_CHATS w3)))) w3))
             else (None, emit (Answer (Some (Notice Leave_Failed)) True) w1)))"

text \<open>Lines 347--358: the table \<^verbatim>\<open>prompts\<close>, from the action to the step it starts.\<close>

definition prompts :: "string \<Rightarrow> step option" where
  "prompts = map_of
     [(''broadcast_msg'', awaiting_broadcast_message),
      (''post_msg'', awaiting_post_message),
      (''add_admin'', awaiting_add_admin_id),
      (''remove_admin'', awaiting_remove_admin_id),
      (''block_user'', awaiting_block_user_id),
      (''unblock_user'', awaiting_unblock_user_id),
      (''add_free_channel_name'', awaiting_free_channel_name),
      (''remove_free_channel'', awaiting_remove_free_channel_num),
      (''add_paid_channel_name'', awaiting_paid_channel_name),
      (''remove_paid_channel'', awaiting_remove_paid_channel_num)]"

text \<open>Lines 344--363. \<^verbatim>\<open>query.data.split('_', 1)[1]\<close> is what follows \<^verbatim>\<open>ask_\<close>.\<close>

definition ask_action :: "int \<Rightarrow> string \<Rightarrow> world \<Rightarrow> world" where
  "ask_action user dat w =
     (if \<not> is_admin w user then w
      else
        case prompts (drop 4 dat) of
          None \<Rightarrow> w
        | Some state \<Rightarrow>
            emit (EditMessageText (Screen (Prompt state)))
              (set_wizard user (\<lambda>z. z\<lparr>next_step := Some state\<rparr>) w))"

text \<open>Lines 395--411.\<close>

definition list_users :: "world \<Rightarrow> screen" where
  "list_users w =
     (if USER_DATA w \<noteq> []
      then (let user_list = filter (\<lambda>(u, d). u \<notin> set (ADMIN_IDS w)) (USER_DATA w)
            in if user_list \<noteq> [] then User_List user_list else No_Users_But_Admins)
      else No_Users)"

text \<open>Lines 448--456 and 476--485.\<close>

definition free_list_admin :: "world \<Rightarrow> screen" where
  "free_list_admin w =
     (if FREE_CHANNELS w \<noteq> []
      then Free_List_Admin
             (map (\<lambda>(ch_id, title). (get_or (map_of (FREE_CHANNEL_LINKS w) ch_id) [], title))
                (FREE_CHANNELS w))
      else Free_List_Admin_Empty)"

definition paid_label :: "string \<Rightarrow> error + string" where
  "paid_label entry =
     (case split_1 ''<code>'' entry of Inl e \<Rightarrow> Inl e | Inr piece \<Rightarrow> Inr (split_0 ''</code>'' piece))"

definition paid_link :: "string \<Rightarrow> error + string" where
  "paid_link entry =
     (case split_1 (''href='' @ [CHR 0x27]) entry of
        Inl e \<Rightarrow> Inl e
      | Inr piece \<Rightarrow> Inr (split_0 [CHR 0x27] piece))"

text \<open>Lines 488--513.\<close>

definition join_action :: "int \<Rightarrow> string \<Rightarrow> world \<Rightarrow> error option \<times> world" where
  "join_action user dat w =
     (let w1 = emit DeleteMessage w in
      if startswith dat ''join_free_'' then
        (case py_int (last_segment dat) of
           None \<Rightarrow> (Some ValueError, w1)
         | Some ch \<Rightarrow>
             (case map_of (FREE_CHANNEL_LINKS w1) ch of
                None \<Rightarrow> (None, emit (Answer (Some (Notice No_Link_For_Channel)) True) w1)
              | Some link \<Rightarrow>
                  if link \<noteq> [] then (None, emit (SendMessage user (Notice (Join_Free_Link link))) w1)
                  else (None, emit (Answer (Some (Notice No_Link_For_Channel)) True) w1)))
      else if startswith dat ''join_paid_'' then
        (case py_int (last_segment dat) of
           None \<Rightarrow> (Some ValueError, w1)
         | Some index \<Rightarrow>
             if 0 \<le> index \<and> index < int (length (PAID_CHANNELS w1)) then
               (case paid_link (PAID_CHANNELS w1 ! nat index) of
                  Inl e \<Rightarrow> (None, emit (Answer (Some (Notice Paid_Link_Not_Found)) True) w1)
                | Inr link \<Rightarrow> (None, emit (SendMessage user (Notice (Join_Paid_Link link))) w1))
             else (None, w1))
      else (None, w1))"

text \<open>
  Lines 313--513: the chain of \<^verbatim>\<open>if\<close>/\<^verbatim>\<open>elif\<close> on the token, after the empty
  \<^verbatim>\<open>query.answer()\<close>. A token no branch matches changes nothing.
\<close>

definition menu_action :: "config \<Rightarrow> tg_user \<Rightarrow> string \<Rightarrow> world \<Rightarrow> error option \<times> world" where
  "menu_action cfg from_user dat w =
     (let user = uid from_user; edit = (\<lambda>s. (None, emit (EditMessageText (Screen s)) w)) in
      if dat = ''start_member'' then edit (Member_Menu (u_first_name from_user))
      else if dat = ''main_menu_owner'' then edit Owner_Menu
      else if dat = ''admin_panel'' then
        (if \<not> is_admin w user then (None, w) else edit (Admin_Panel (is_owner cfg user)))
      else if dat = ''owner_panel'' then
        (if \<not> is_owner cfg user then (None, w) else edit Owner_Panel)
      else if startswith dat ''ask_'' then (None, ask_action user dat w)
      else if dat = ''manage_free_channels'' then
        (if \<not> is_admin w user then (None, w) else edit Manage_Free)
      else if dat = ''manage_paid_channels'' then
        (if \<not> is_admin w user then (None, w) else edit Manage_Paid)
      else if dat = ''manage_users'' then
        (if \<not> is_owner cfg user then (None, w) else edit Manage_Users)
      else if dat = ''list_admins'' then
        (if \<not> is_owner cfg user then (None, w) else edit (Admin_List (OWNER_ID cfg) (ADMIN_IDS w)))
      else if dat = ''list_users'' then
        (if \<not> is_owner cfg user then (None, w) else edit (list_users w))
      else if dat = ''list_blocked_users'' then
        (if \<not> is_owner cfg user then (None, w)
         else if BLOCKED_USER_IDS w \<noteq> {||} then edit (Blocked_List (BLOCKED_USER_IDS w))
         else edit Nobody_Blocked)
      else if dat = ''bot_stats'' then
        (if \<not> is_owner cfg user then (None, w)
         else edit (Bot_Stats (length (USER_DATA w)) (length (ADMIN_IDS w))
                      (int (length (USER_DATA w)) - int (length (ADMIN_IDS w)))
                      (fcard (BLOCKED_USER_IDS w))))
      else if dat = ''join_list'' then
        (if \<not> is_owner cfg user then (None, w) else edit (Join_List (ACTIVE_CHATS w)))
      else if dat = ''list_free_channels_admin'' then
        (if \<not> is_admin w user then (None, w) else edit (free_list_admin w))
      else if dat = ''list_paid_channels_admin'' then
        (if \<not> is_admin w user then (None, w)
         else if PAID_CHANNELS w \<noteq> [] then edit (Paid_List_Admin (PAID_CHANNELS w))
         else edit Paid_List_Admin_Empty)
      else if dat = ''show_free_channels'' then edit (Free_Channels_Menu (FREE_CHANNELS w))
      else if dat = ''show_paid_channels'' then edit (Paid_Channels_Menu (map paid_label (PAID_CHANNELS w)))
      else if startswith dat ''join_'' then join_action user dat w
      else (None, w))"

text \<open>Lines 261--311: the block check, the three early branches, then the chain.\<close>

definition button_handler :: "config \<Rightarrow> platform \<Rightarrow> tg_user \<Rightarrow> string \<Rightarrow> world \<Rightarrow> error option \<times> world" where
  "button_handler cfg p from_user dat w =
     (if uid from_user |\<in>| BLOCKED_USER_IDS w
      then (None, emit (Answer (Some (Notice You_Are_Blocked)) True) w)
      else if dat = ''verify_join'' then (None, verify_join cfg p from_user w)
      else if dat = ''get_my_id'' then (None, emit (Answer (Some (Notice (Your_Id (uid from_user)))) True) w)
      else if startswith dat ''leave_chat_'' then leave_chat_action cfg p (uid from_user) dat w
      else menu_action cfg from_user dat (emit (Answer None False) w))"

section \<open>Text input: the wizards\<close>

text \<open>Lines 526--536: every send is tried; a send that raises is counted as failed.\<close>

fun broadcast_loop :: "platform \<Rightarrow> string \<Rightarrow> int list \<Rightarrow> nat \<Rightarrow> nat \<Rightarrow> world \<Rightarrow> (nat \<times> nat) \<times> world" where
  "broadcast_loop p txt [] success_count failed_count w = ((success_count, failed_count), w)"
| "broadcast_loop p txt (u_id # rest) success_count failed_count w =
     (let w1 = emit (SendMessage u_id (Notice (User_Text txt))) w in
      if send_message p u_id then broadcast_loop p txt rest (success_count + 1) failed_count w1
      else broadcast_loop p txt rest success_count (failed_count + 1) w1)"

definition broadcast :: "platform \<Rightarrow> string \<Rightarrow> world \<Rightarrow> world" where
  "broadcast p txt w =
     (let active_users =
            filter (\<lambda>u. u \<notin> set (ADMIN_IDS w) \<and> \<not> u |\<in>| BLOCKED_USER_IDS w) (map fst (USER_DATA w));
          w1 = emit (Reply (Users (Broadcast_Starting (length active_users)))) w
      in case broadcast_loop p txt active_users 0 0 w1 of
           ((success_count, failed_count), w2) \<Rightarrow>
             emit (Reply (Users (Broadcast_Done success_count failed_count))) w2)"

text \<open>Lines 538--548.\<close>

fun post_loop :: "platform \<Rightarrow> string \<Rightarrow> int list \<Rightarrow> nat \<Rightarrow> int list \<Rightarrow> world \<Rightarrow> (nat \<times> int list) \<times> world" where
  "post_loop p txt [] successful_posts failed_posts w = ((successful_posts, failed_posts), w)"
| "post_loop p txt (channel_id # rest) successful_posts failed_posts w =
     (let w1 = emit (SendMessage channel_id (Notice (User_Text txt))) w in
      if send_message p channel_id then post_loop p txt rest (successful_posts + 1) failed_posts w1
      else post_loop p txt rest successful_posts (failed_posts @ [channel_id]) w1)"

definition post :: "platform \<Rightarrow> string \<Rightarrow> world \<Rightarrow> world" where
  "post p txt w =
     (case post_loop p txt (map fst (FREE_CHANNELS w)) 0 [] w of
        ((successful_posts, failed_posts), w1) \<Rightarrow>
          emit (Reply (Users (Post_Report successful_posts failed_posts))) w1)"

text \<open>
  Lines 551--583: the four owner-only steps. \<^verbatim>\<open>save_data\<close> runs after the reply on
  every path that parsed the id; a text that is not an integer is answered and nothing
  else happens. The reply is taken to return: one that raised would leave the handler
  before \<^verbatim>\<open>save_data\<close>.
\<close>

definition manage_ids :: "config \<Rightarrow> int \<Rightarrow> step \<Rightarrow> string \<Rightarrow> world \<Rightarrow> world" where
  "manage_ids cfg user state txt w =
     (if \<not> is_owner cfg user then w
      else
        case py_int txt of
          None \<Rightarrow> emit (Reply (Users Invalid_User_Id)) w
        | Some target_id \<Rightarrow>
            save_data cfg
              (if state = awaiting_add_admin_id then
                 (if target_id \<notin> set (ADMIN_IDS w)
                  then emit (Reply (Users (Admin_Added target_id)))
                         (w\<lparr>ADMIN_IDS := ADMIN_IDS w @ [target_id]\<rparr>)
                  else emit (Reply (Users Already_Admin)) w)
               else if state = awaiting_remove_admin_id then
                 (if target_id = OWNER_ID cfg then emit (Reply (Users Cannot_Remove_Owner)) w
                  else if target_id \<in> set (ADMIN_IDS w)
                  then emit (Reply (Users (Admin_Removed target_id)))
                         (w\<lparr>ADMIN_IDS := remove1 target_id (ADMIN_IDS w)\<rparr>)
                  else emit (Reply (Users Not_An_Admin)) w)
               else if state = awaiting_block_user_id then
                 (if target_id = OWNER_ID cfg \<or> target_id \<in> set (ADMIN_IDS w)
                  then emit (Reply (Users Cannot_Block_Admin)) w
                  else emit (Reply (Users (User_Blocked target_id)))
                         (w\<lparr>BLOCKED_USER_IDS := finsert target_id (BLOCKED_USER_IDS w)\<rparr>))
               else if state = awaiting_unblock_user_id then
                 (if target_id |\<in>| BLOCKED_USER_IDS w
                  then emit (Reply (Users (User_Unblocked target_id)))
                         (w\<lparr>BLOCKED_USER_IDS := BLOCKED_USER_IDS w |-| {|target_id|}\<rparr>)
                  else emit (Reply (Users Not_In_Block_List)) w)
               else w))"

text \<open>Lines 586--594.\<close>

definition free_channel_name :: "int \<Rightarrow> string \<Rightarrow> world \<Rightarrow> world" where
  "free_channel_name user txt w =
     emit (Reply (Channels Name_Set_Send_Link))
       (set_wizard user
          (\<lambda>z. z\<lparr>new_channel_name := Some txt, next_step := Some awaiting_free_channel_link\<rparr>) w)"

definition free_channel_link :: "int \<Rightarrow> string \<Rightarrow> world \<Rightarrow> world" where
  "free_channel_link user txt w =
     emit (Reply (Channels Link_Set_Send_Chat_Id))
       (set_wizard user
          (\<lambda>z. z\<lparr>new_channel_link := Some txt, next_step := Some awaiting_free_channel_chat_id\<rparr>) w)"

text \<open>
  Lines 596--613. The name and the link are popped from \<^verbatim>\<open>context.user_data\<close> before
  the id is parsed. \<^verbatim>\<open>if name and link\<close> holds when both are present and not empty.
\<close>

definition free_channel_chat_id :: "config \<Rightarrow> int \<Rightarrow> string \<Rightarrow> world \<Rightarrow> world" where
  "free_channel_chat_id cfg user txt w =
     (let name = new_channel_name (user_data w user);
          link = new_channel_link (user_data w user);
          w1 = set_wizard user (\<lambda>z. z\<lparr>new_channel_name := None, new_channel_link := None\<rparr>) w
      in case py_int txt of
           None \<Rightarrow> emit (Reply (Channels Invalid_Chat_Id_Not_Number)) w1
         | Some ch \<Rightarrow>
             if \<not> startswith (py_str ch) ''-100''
             then emit (Reply (Channels Invalid_Chat_Id_Prefix)) w1
             else
               (case (name, link) of
                  (Some n, Some l) \<Rightarrow>
                    if n \<noteq> [] \<and> l \<noteq> []
                    then emit (Reply (Channels (Free_Channel_Added n)))
                           (save_data cfg
                              (w1\<lparr>FREE_CHANNELS := AList.update ch n (FREE_CHANNELS w1),
                                  FREE_CHANNEL_LINKS := AList.update ch l (FREE_CHANNEL_LINKS w1)\<rparr>))
                    else emit (Reply (Channels Info_Missing_Restart)) w1
                | _ \<Rightarrow> emit (Reply (Channels Info_Missing_Restart)) w1))"

text \<open>Lines 615--628.\<close>

definition remove_free_channel_num :: "config \<Rightarrow> string \<Rightarrow> world \<Rightarrow> world" where
  "remove_free_channel_num cfg txt w =
     (case py_int txt of
        None \<Rightarrow> emit (Reply (Channels Send_A_Number)) w
      | Some n \<Rightarrow>
          (let index_to_remove = n - 1; channel_ids = map fst (FREE_CHANNELS w) in
           if 0 \<le> index_to_remove \<and> index_to_remove < int (length channel_ids)
           then
             (let removed_channel_id = channel_ids ! nat index_to_remove;
                  removed_channel_title = snd (FREE_CHANNELS w ! nat index_to_remove)
              in emit (Reply (Channels (Free_Channel_Removed removed_channel_title)))
                   (save_data cfg
                      (w\<lparr>FREE_CHANNELS := AList.delete removed_channel_id (FREE_CHANNELS w),
                         FREE_CHANNEL_LINKS := AList.delete removed_channel_id (FREE_CHANNEL_LINKS w)\<rparr>)))
           else emit (Reply (Channels Invalid_Number)) w))"

text \<open>
  Lines 630--641. The catalogue entry is the formatted string of line 638; \<open>gem\<close> and
  \<open>premium_suffix\<close> are the UTF-8 bytes of its two literals outside ASCII.
\<close>

definition gem :: string where
  "gem = [CHR 0xF0, CHR 0x9F, CHR 0x92, CHR 0x8E]"

definition premium_suffix :: string where
  "premium_suffix =
     [CHR 0x20, CHR 0x2D, CHR 0x20, CHR 0xE0, CHR 0xA4, CHR 0xAA, CHR 0xE0, CHR 0xA5, CHR 0x8D,
      CHR 0xE0, CHR 0xA4, CHR 0xB0, CHR 0xE0, CHR 0xA5, CHR 0x80, CHR 0xE0, CHR 0xA4, CHR 0xAE,
      CHR 0xE0, CHR 0xA4, CHR 0xBF, CHR 0xE0, CHR 0xA4, CHR 0xAF, CHR 0xE0, CHR 0xA4, CHR 0xAE,
      CHR 0x20, CHR 0xE0, CHR 0xA4, CHR 0x95, CHR 0xE0, CHR 0xA4, CHR 0x82, CHR 0xE0, CHR 0xA4,
      CHR 0x9F, CHR 0xE0, CHR 0xA5, CHR 0x87, CHR 0xE0, CHR 0xA4, CHR 0x82, CHR 0xE0, CHR 0xA4,
      CHR 0x9F, CHR 0x20, CHR 0xE0, CHR 0xA4, CHR 0x95, CHR 0xE0, CHR 0xA5, CHR 0x87, CHR 0x20,
      CHR 0xE0, CHR 0xA4, CHR 0xB2, CHR 0xE0, CHR 0xA4, CHR 0xBF, CHR 0xE0, CHR 0xA4, CHR 0x8F,
      CHR 0xE0, CHR 0xA5, CHR 0xA4]"

definition html_entry :: "string \<Rightarrow> string \<Rightarrow> string" where
  "html_entry link name =
     ''<a href='' @ [CHR 0x27] @ link @ [CHR 0x27] @ ''>'' @ gem @ ''<code>'' @ name @ ''</code></a>''
       @ premium_suffix"

definition paid_channel_name :: "int \<Rightarrow> string \<Rightarrow> world \<Rightarrow> world" where
  "paid_channel_name user txt w =
     emit (Reply (Channels Paid_Send_Link))
       (set_wizard user
          (\<lambda>z. z\<lparr>new_channel_name := Some txt, next_step := Some awaiting_paid_channel_link\<rparr>) w)"

definition paid_channel_link :: "config \<Rightarrow> int \<Rightarrow> string \<Rightarrow> world \<Rightarrow> world" where
  "paid_channel_link cfg user txt w =
     (let name = get_or (new_channel_name (user_data w user)) ''N/A'';
          w1 = set_wizard user (\<lambda>z. z\<lparr>new_channel_name := None\<rparr>) w
      in emit (Reply (Channels (Paid_Channel_Added name)))
           (save_data cfg (w1\<lparr>PAID_CHANNELS := PAID_CHANNELS w1 @ [html_entry txt name]\<rparr>)))"

text \<open>Lines 643--653.\<close>

definition remove_paid_channel_num :: "config \<Rightarrow> string \<Rightarrow> world \<Rightarrow> world" where
  "remove_paid_channel_num cfg txt w =
     (case py_int txt of
        None \<Rightarrow> emit (Reply (Channels Send_A_Number)) w
      | Some n \<Rightarrow>
          (let index_to_remove = n - 1 in
           if 0 \<le> index_to_remove \<and> index_to_remove < int (length (PAID_CHANNELS w))
           then
             (let removed_entry = PAID_CHANNELS w ! nat index_to_remove
              in emit (Reply (Channels (Paid_Entry_Removed removed_entry)))
                   (save_data cfg
                      (w\<lparr>PAID_CHANNELS :=
                           take (nat index_to_remove) (PAID_CHANNELS w)
                             @ drop (Suc (nat index_to_remove)) (PAID_CHANNELS w)\<rparr>)))
           else emit (Reply (Channels Invalid_Number)) w))"

text \<open>The branch of lines 526--653 that the popped step selects.\<close>

fun run_step :: "config \<Rightarrow> platform \<Rightarrow> int \<Rightarrow> step \<Rightarrow> string \<Rightarrow> world \<Rightarrow> world" where
  "run_step cfg p user awaiting_broadcast_message txt w = broadcast p txt w"
| "run_step cfg p user awaiting_post_message txt w = post p txt w"
| "run_step cfg p user awaiting_add_admin_id txt w = manage_ids cfg user awaiting_add_admin_id txt w"
| "run_step cfg p user awaiting_remove_admin_id txt w = manage_ids cfg user awaiting_remove_admin_id txt w"
| "run_step cfg p user awaiting_block_user_id txt w = manage_ids cfg user awaiting_block_user_id txt w"
| "run_step cfg p user awaiting_unblock_user_id txt w = manage_ids cfg user awaiting_unblock_user_id txt w"
| "run_step cfg p user awaiting_free_channel_name txt w = free_channel_name user txt w"
| "run_step cfg p user awaiting_free_channel_link txt w = free_channel_link user txt w"
| "run_step cfg p user awaiting_free_channel_chat_id txt w = free_channel_chat_id cfg user txt w"
| "run_step cfg p user awaiting_remove_free_channel_num txt w = remove_free_channel_num cfg txt w"
| "run_step cfg p user awaiting_paid_channel_name txt w = paid_channel_name user txt w"
| "run_step cfg p user awaiting_paid_channel_link txt w = paid_channel_link cfg user txt w"
| "run_step cfg p user awaiting_remove_paid_channel_num txt w = remove_paid_channel_num cfg txt w"

text \<open>
  Lines 517--523: the handler returns unless the sender is an admin with a pending
  step; the step is popped before its branch runs.
\<close>

definition handle_text_input :: "config \<Rightarrow> platform \<Rightarrow> tg_user option \<Rightarrow> string \<Rightarrow> world \<Rightarrow> world" where
  "handle_text_input cfg p user txt w =
     (case user of
        None \<Rightarrow> w
      | Some u \<Rightarrow>
          if \<not> is_admin w (uid u) then w
          else
            (case next_step (user_data w (uid u)) of
               None \<Rightarrow> w
             | Some state \<Rightarrow>
                 run_step cfg p (uid u) state txt
                   (set_wizard (uid u) (\<lambda>z. z\<lparr>next_step := None\<rparr>) w)))"

section \<open>Reference definitions and example inputs\<close>

text \<open>
  What the cascading removal is expected to issue for one channel: the ban, and the
  unban when the ban returned.
\<close>

definition kick_attempt :: "platform \<Rightarrow> int \<Rightarrow> int \<Rightarrow> call list" where
  "kick_attempt p user ch =
     (if ban_chat_member p ch user then [BanChatMember ch user, UnbanChatMember ch user]
      else [BanChatMember ch user])"

fun is_ban :: "call \<Rightarrow> bool" where
  "is_ban (BanChatMember ch user) = True"
| "is_ban c = False"


text \<open>
  A configuration with an owner (1) and one more admin (2), a registry with two free
  channels, a platform on which the ban in channel -1005 raises, the membership of
  user 6 is LEFT and every other lookup raises, and a regular user.
\<close>

definition example_config :: config where
  "example_config =
     \<lparr>OWNER_ID = 1, ENV_ADMIN_IDS = [2], MANDATORY_CHANNEL_ID = - 1001, LOG_CHANNEL_ID = - 1002,
      DATA_FILE = ''/data/bot_data.json''\<rparr>"

definition example_world :: world where
  "example_world =
     (module_init example_config Map.empty)
       \<lparr>FREE_CHANNELS := [(- 1005, ''Batch A''), (- 1006, ''Batch B'')],
        FREE_CHANNEL_LINKS := [(- 1005, ''https://t.me/+a''), (- 1006, ''https://t.me/+b'')]\<rparr>"

definition flaky_platform :: platform where
  "flaky_platform =
     \<lparr>get_chat_member = (\<lambda>c u. if u = 6 then Some LEFT else None),
      ban_chat_member = (\<lambda>c u. c \<noteq> - 1005),
      unban_chat_member = (\<lambda>c u. True),
      send_message = (\<lambda>c. c \<noteq> 8),
      leave_chat = (\<lambda>c. True)\<rparr>"

definition visitor :: tg_user where
  "visitor = \<lparr>uid = 5, u_first_name = ''Vi'', u_full_name = ''Vi Sitor'', u_username = None\<rparr>"

text \<open>The owner, the second admin, and the private chat of the regular user.\<close>

definition owner :: tg_user where
  "owner = \<lparr>uid = 1, u_first_name = ''Om'', u_full_name = ''Om Ner'', u_username = Some ''om''\<rparr>"

definition admin2 :: tg_user where
  "admin2 = \<lparr>uid = 2, u_first_name = ''Ad'', u_full_name = ''Ad Min'', u_username = None\<rparr>"

definition private_chat :: tg_chat where
  "private_chat = \<lparr>chat_id = 5, chat_kind = PRIVATE\<rparr>"

text \<open>
  The same configuration on the fallback path of line 67 (no \<^verbatim>\<open>DATA_FILE\<close>, no
  \<^verbatim>\<open>/data\<close>), and one whose owner was 7, as an earlier deployment.
\<close>

definition default_path_config :: config where
  "default_path_config = example_config\<lparr>DATA_FILE := ''bot_data.json''\<rparr>"

definition old_owner_config :: config where
  "old_owner_config = example_config\<lparr>OWNER_ID := 7, ENV_ADMIN_IDS := []\<rparr>"

text \<open>
  Worlds reached by the handlers themselves. The owner presses a button that starts a
  wizard and, for the free channel, has sent the name and the link.
\<close>

definition wizard_at_chat_id :: world where
  "wizard_at_chat_id =
     handle_text_input example_config flaky_platform (Some owner) ''https://t.me/+abc''
       (handle_text_input example_config flaky_platform (Some owner) ''Batch A''
          (snd (button_handler example_config flaky_platform owner ''ask_add_free_channel_name''
                  example_world)))"

definition paid_wizard_start :: world where
  "paid_wizard_start =
     snd (button_handler example_config flaky_platform owner ''ask_add_paid_channel_name'' example_world)"

definition block_wizard_start :: world where
  "block_wizard_start =
     snd (button_handler default_path_config flaky_platform owner ''ask_block_user'' example_world)"

definition remove_admin_start :: world where
  "remove_admin_start =
     snd (button_handler example_config flaky_platform owner ''ask_remove_admin'' example_world)"

text \<open>
  The owner has blocked user 5. In the second world admin 2 has a pending post, then
  the owner removes 2 from the admins, blocks 2 and makes 2 an admin again.
\<close>

definition blocked_visitor_world :: world where
  "blocked_visitor_world =
     handle_text_input example_config flaky_platform (Some owner) ''5''
       (snd (button_handler example_config flaky_platform owner ''ask_block_user'' example_world))"

definition blocked_admin_world :: world where
  "blocked_admin_world =
     (let w1 = snd (button_handler example_config flaky_platform admin2 ''ask_post_msg'' example_world);
          w2 = handle_text_input example_config flaky_platform (Some owner) ''2''
                 (snd (button_handler example_config flaky_platform owner ''ask_remove_admin'' w1));
          w3 = handle_text_input example_config flaky_platform (Some owner) ''2''
                 (snd (button_handler example_config flaky_platform owner ''ask_block_user'' w2))
      in handle_text_input example_config flaky_platform (Some owner) ''2''
           (snd (button_handler example_config flaky_platform owner ''ask_add_admin'' w3)))"

text \<open>
  The regular user has sent the start command; the disk an earlier deployment, whose
  owner was 7, leaves behind.
\<close>

definition visited_world :: world where
  "visited_world = start_command example_config flaky_platform (Some visitor) example_world"

definition old_disk :: "string \<Rightarrow> filedata option" where
  "old_disk = disk (startup old_owner_config Map.empty)"

section \<open>Frame lemmas\<close>

lemma emit_fields [simp]:
  "ADMIN_IDS (emit c w) = ADMIN_IDS w"
  "FREE_CHANNELS (emit c w) = FREE_CHANNELS w"
  "FREE_CHANNEL_LINKS (emit c w) = FREE_CHANNEL_LINKS w"
  "PAID_CHANNELS (emit c w) = PAID_CHANNELS w"
  "USER_DATA (emit c w) = USER_DATA w"
  "BLOCKED_USER_IDS (emit c w) = BLOCKED_USER_IDS w"
  "ACTIVE_CHATS (emit c w) = ACTIVE_CHATS w"
  "user_data (emit c w) = user_data w"
  "disk (emit c w) = disk w"
  "sent (emit c w) = sent w @ [c]"
  by (simp_all add: emit_def)

lemma set_wizard_fields [simp]:
  "ADMIN_IDS (set_wizard u f w) = ADMIN_IDS w"
  "FREE_CHANNELS (set_wizard u f w) = FREE_CHANNELS w"
  "FREE_CHANNEL_LINKS (set_wizard u f w) = FREE_CHANNEL_LINKS w"
  "PAID_CHANNELS (set_wizard u f w) = PAID_CHANNELS w"
  "USER_DATA (set_wizard u f w) = USER_DATA w"
  "BLOCKED_USER_IDS (set_wizard u f w) = BLOCKED_USER_IDS w"
  "ACTIVE_CHATS (set_wizard u f w) = ACTIVE_CHATS w"
  "user_data (set_wizard u f w) = (user_data w)(u := f (user_data w u))"
  "disk (set_wizard u f w) = disk w"
  "sent (set_wizard u f w) = sent w"
  by (simp_all add: set_wizard_def)

lemma save_data_fields [simp]:
  "ADMIN_IDS (save_data cfg w) = ADMIN_IDS w"
  "FREE_CHANNELS (save_data cfg w) = FREE_CHANNELS w"
  "FREE_CHANNEL_LINKS (save_data cfg w) = FREE_CHANNEL_LINKS w"
  "PAID_CHANNELS (save_data cfg w) = PAID_CHANNELS w"
  "USER_DATA (save_data cfg w) = USER_DATA w"
  "BLOCKED_USER_IDS (save_data cfg w) = BLOCKED_USER_IDS w"
  "ACTIVE_CHATS (save_data cfg w) = ACTIVE_CHATS w"
  "user_data (save_data cfg w) = user_data w"
  "sent (save_data cfg w) = sent w"
  by (simp_all add: save_data_def split: sum.splits)

lemma is_admin_emit [simp]: "is_admin (emit c w) u = is_admin w u"
  by (simp add: is_admin_def)

section \<open>Membership gate and cascading removal\<close>

lemma kick_loop_sent:
  "kick_loop p user chs w = w\<lparr>sent := sent w @ concat (map (kick_attempt p user) chs)\<rparr>"
proof (induction chs arbitrary: w)
  case Nil
  show ?case by simp
next
  case (Cons ch chs)
  show ?case by (simp add: Cons.IH kick_attempt_def emit_def Let_def)
qed

lemma bans_of_kick_attempts:
  "filter is_ban (concat (map (kick_attempt p user) chs)) = map (\<lambda>ch. BanChatMember ch user) chs"
  by (induction chs) (simp_all add: kick_attempt_def)

lemma kick_attempts_all_ok:
  "list_all (\<lambda>ch. ban_chat_member p ch user) chs \<Longrightarrow>
   concat (map (kick_attempt p user) chs) = concat (map (\<lambda>ch. [BanChatMember ch user, UnbanChatMember ch user]) chs)"
  by (induction chs) (simp_all add: kick_attempt_def)

text \<open>
  C6. Membership check: for a user id in AdminSet the result is true and no call is
  made; for every other id exactly one lookup against the mandatory channel is issued,
  the result is false when the lookup raises, and true only when the reported status
  is owner, administrator or member.
\<close>

theorem is_user_member_of_channel_gate:
  "(is_admin w user \<longrightarrow> is_user_member_of_channel cfg p user w = (True, w)) \<and>
   (\<not> is_admin w user \<longrightarrow>
      is_user_member_of_channel cfg p user w =
        ((case get_chat_member p (MANDATORY_CHANNEL_ID cfg) user of
            None \<Rightarrow> False
          | Some st \<Rightarrow> st = OWNER \<or> st = ADMINISTRATOR \<or> st = MEMBER),
         w\<lparr>sent := sent w @ [GetChatMember (MANDATORY_CHANNEL_ID cfg) user]\<rparr>))"
  by (simp add: is_user_member_of_channel_def member_like_def emit_def split: option.splits)

text \<open>
  Admin 1 is let through with no call; for user 5 the one lookup raises and the result
  is false.
\<close>

theorem is_user_member_of_channel_gate_witness:
  "is_admin example_world 1 \<and>
   is_user_member_of_channel example_config flaky_platform 1 example_world = (True, example_world) \<and>
   \<not> is_admin example_world 5 \<and>
   is_user_member_of_channel example_config flaky_platform 5 example_world =
     (False, example_world\<lparr>sent := [GetChatMember (- 1001) 5]\<rparr>)"
  using is_user_member_of_channel_gate [of example_world 1 example_config flaky_platform]
    is_user_member_of_channel_gate [of example_world 5 example_config flaky_platform]
  by (simp add: is_admin_def example_world_def example_config_def module_init_def flaky_platform_def)

text \<open>
  C5. Cascading removal: for an admin id nothing is done. For any other id the calls
  issued are, channel by channel in catalogue order, the ban and then (when the ban
  returned) the unban: every channel gets its ban whatever failed before it, a ban that
  succeeds is followed at once by the unban, and the operation returns the world with
  nothing but the calls added (no error reaches the caller).
\<close>

theorem remove_user_from_free_channels_kicks:
  "(is_admin w user \<longrightarrow> remove_user_from_free_channels p user w = w) \<and>
   (\<not> is_admin w user \<longrightarrow>
      remove_user_from_free_channels p user w =
        w\<lparr>sent := sent w @ concat (map (kick_attempt p user) (map fst (FREE_CHANNELS w)))\<rparr> \<and>
      filter is_ban (concat (map (kick_attempt p user) (map fst (FREE_CHANNELS w)))) =
        map (\<lambda>ch. BanChatMember ch user) (map fst (FREE_CHANNELS w)) \<and>
      (list_all (\<lambda>ch. ban_chat_member p ch user) (map fst (FREE_CHANNELS w)) \<longrightarrow>
         concat (map (kick_attempt p user) (map fst (FREE_CHANNELS w))) =
           concat (map (\<lambda>ch. [BanChatMember ch user, UnbanChatMember ch user]) (map fst (FREE_CHANNELS w)))))"
proof (intro conjI impI)
  assume "is_admin w user"
  then show "remove_user_from_free_channels p user w = w"
    by (simp add: remove_user_from_free_channels_def)
next
  assume "\<not> is_admin w user"
  then show "remove_user_from_free_channels p user w =
      w\<lparr>sent := sent w @ concat (map (kick_attempt p user) (map fst (FREE_CHANNELS w)))\<rparr>"
    by (simp only: remove_user_from_free_channels_def kick_loop_sent if_False)
next
  show "filter is_ban (concat (map (kick_attempt p user) (map fst (FREE_CHANNELS w)))) =
      map (\<lambda>ch. BanChatMember ch user) (map fst (FREE_CHANNELS w))"
    by (rule bans_of_kick_attempts)
next
  assume "list_all (\<lambda>ch. ban_chat_member p ch user) (map fst (FREE_CHANNELS w))"
  then show "concat (map (kick_attempt p user) (map fst (FREE_CHANNELS w))) =
      concat (map (\<lambda>ch. [BanChatMember ch user, UnbanChatMember ch user]) (map fst (FREE_CHANNELS w)))"
    by (rule kick_attempts_all_ok)
qed

text \<open>
  Nothing is done for admin 2. For user 5 the ban in channel -1005 raises, and channel
  -1006 still gets its ban and its unban; with that channel alone every ban returns.
\<close>

theorem remove_user_from_free_channels_kicks_witness:
  "is_admin example_world 2 \<and>
   remove_user_from_free_channels flaky_platform 2 example_world = example_world \<and>
   \<not> is_admin example_world 5 \<and>
   sent (remove_user_from_free_channels flaky_platform 5 example_world) =
     [BanChatMember (- 1005) 5, BanChatMember (- 1006) 5, UnbanChatMember (- 1006) 5] \<and>
   list_all (\<lambda>ch. ban_chat_member flaky_platform ch 5) (map fst (FREE_CHANNELS (example_world\<lparr>FREE_CHANNELS := [(- 1006, ''Batch B'')]\<rparr>))) \<and>
   sent (remove_user_from_free_channels flaky_platform 5 (example_world\<lparr>FREE_CHANNELS := [(- 1006, ''Batch B'')]\<rparr>)) =
     [BanChatMember (- 1006) 5, UnbanChatMember (- 1006) 5]"
  using remove_user_from_free_channels_kicks [of example_world 2 flaky_platform]
    remove_user_from_free_channels_kicks [of example_world 5 flaky_platform]
    remove_user_from_free_channels_kicks [of "example_world\<lparr>FREE_CHANNELS := [(- 1006, ''Batch B'')]\<rparr>" 5 flaky_platform]
  by (simp add: is_admin_def example_world_def example_config_def module_init_def flaky_platform_def kick_attempt_def)

section \<open>The start command\<close>

lemma start_command_regular:
  assumes "\<not> uid u |\<in>| BLOCKED_USER_IDS w" "classify cfg w (uid u) = Regular"
  shows "start_command cfg p (Some u) w =
    (let w1 = w\<lparr>USER_DATA := AList.update (uid u) \<lparr>full_name = u_full_name u, username = u_username u\<rparr> (USER_DATA w)\<rparr>;
         w2 = emit (GetChatMember (MANDATORY_CHANNEL_ID cfg) (uid u)) w1
     in if fst (is_user_member_of_channel cfg p (uid u) w)
        then emit (Reply (Screen (Member_Menu (u_first_name u)))) w2
        else emit (Reply (Screen (Join_Prompt (u_first_name u)))) (remove_user_from_free_channels p (uid u) w2))"
proof -
  have key: "uid u \<in> fst ` set (AList.update (uid u) v (USER_DATA w))" for v
    by (simp add: AList.dom_update)
  from assms(2) have "\<not> is_owner cfg (uid u)" "\<not> is_admin w (uid u)"
    by (simp_all add: classify_def split: if_splits)
  then show ?thesis
    using assms(1) key
    by (simp add: start_command_def classify_def is_admin_def is_user_member_of_channel_def Let_def
        split: option.splits)
qed

text \<open>
  C10. A start command from a sender who is not blocked and is a regular user (neither
  owner nor admin), and for whom the membership gate answers false, always runs the
  cascading removal: the directory entry is written before the check, so the test
  \<^verbatim>\<open>user.id in USER_DATA\<close> holds whether or not an entry existed before. The calls made
  are the lookup, the kick of every free channel, and the join prompt.
\<close>

theorem start_command_kicks_non_member:
  assumes "\<not> uid u |\<in>| BLOCKED_USER_IDS w"
    and "classify cfg w (uid u) = Regular"
    and "\<not> fst (is_user_member_of_channel cfg p (uid u) w)"
  shows "start_command cfg p (Some u) w =
      emit (Reply (Screen (Join_Prompt (u_first_name u))))
        (remove_user_from_free_channels p (uid u)
           (emit (GetChatMember (MANDATORY_CHANNEL_ID cfg) (uid u))
              (w\<lparr>USER_DATA :=
                   AList.update (uid u) \<lparr>full_name = u_full_name u, username = u_username u\<rparr>
                     (USER_DATA w)\<rparr>)))
    \<and> sent (start_command cfg p (Some u) w) =
        sent w @ [GetChatMember (MANDATORY_CHANNEL_ID cfg) (uid u)]
          @ concat (map (kick_attempt p (uid u)) (map fst (FREE_CHANNELS w)))
          @ [Reply (Screen (Join_Prompt (u_first_name u)))]"
proof -
  have eq: "start_command cfg p (Some u) w =
      emit (Reply (Screen (Join_Prompt (u_first_name u))))
        (remove_user_from_free_channels p (uid u)
           (emit (GetChatMember (MANDATORY_CHANNEL_ID cfg) (uid u))
              (w\<lparr>USER_DATA :=
                   AList.update (uid u) \<lparr>full_name = u_full_name u, username = u_username u\<rparr>
                     (USER_DATA w)\<rparr>)))"
    using assms by (simp add: start_command_regular Let_def)
  from assms(2) have na: "\<not> is_admin w (uid u)"
    by (simp add: classify_def split: if_splits)
  have "sent (start_command cfg p (Some u) w) =
        sent w @ [GetChatMember (MANDATORY_CHANNEL_ID cfg) (uid u)]
          @ concat (map (kick_attempt p (uid u)) (map fst (FREE_CHANNELS w)))
          @ [Reply (Screen (Join_Prompt (u_first_name u)))]"
    unfolding eq using na
    by (simp add: remove_user_from_free_channels_def kick_loop_sent is_admin_def del: map_map)
  with eq show ?thesis by blast
qed

text \<open>
  The regular user 5 has no directory entry yet and the lookup raises: the start command
  still bans in both free channels (the first ban fails, the second is followed by its
  unban).
\<close>

theorem start_command_kicks_non_member_witness:
  "\<not> uid visitor |\<in>| BLOCKED_USER_IDS example_world \<and>
   classify example_config example_world (uid visitor) = Regular \<and>
   \<not> fst (is_user_member_of_channel example_config flaky_platform (uid visitor) example_world) \<and>
   map_of (USER_DATA example_world) (uid visitor) = None \<and>
   sent (start_command example_config flaky_platform (Some visitor) example_world) =
     [GetChatMember (- 1001) 5, BanChatMember (- 1005) 5, BanChatMember (- 1006) 5,
      UnbanChatMember (- 1006) 5, Reply (Screen (Join_Prompt ''Vi''))]"
proof -
  have h1: "\<not> uid visitor |\<in>| BLOCKED_USER_IDS example_world"
    by (simp add: visitor_def example_world_def module_init_def)
  have h2: "classify example_config example_world (uid visitor) = Regular"
    by (simp add: classify_def is_owner_def is_admin_def visitor_def example_world_def
        example_config_def module_init_def)
  have h3: "\<not> is_admin example_world (uid visitor)"
    by (simp add: is_admin_def visitor_def example_world_def example_config_def module_init_def)
  have h4: "\<not> fst (is_user_member_of_channel example_config flaky_platform (uid visitor) example_world)"
    using h3 by (simp add: is_user_member_of_channel_def visitor_def flaky_platform_def)
  have h5: "map_of (USER_DATA example_world) (uid visitor) = None"
    by (simp add: example_world_def module_init_def)
  have "sent (start_command example_config flaky_platform (Some visitor) example_world) =
        sent example_world @ [GetChatMember (MANDATORY_CHANNEL_ID example_config) (uid visitor)]
          @ concat (map (kick_attempt flaky_platform (uid visitor)) (map fst (FREE_CHANNELS example_world)))
          @ [Reply (Screen (Join_Prompt (u_first_name visitor)))]"
    using start_command_kicks_non_member [OF h1 h2 h4] by (rule conjunct2)
  then have "sent (start_command example_config flaky_platform (Some visitor) example_world) =
     [GetChatMember (- 1001) 5, BanChatMember (- 1005) 5, BanChatMember (- 1006) 5,
      UnbanChatMember (- 1006) 5, Reply (Screen (Join_Prompt ''Vi''))]"
    by (simp add: visitor_def example_world_def example_config_def module_init_def
        flaky_platform_def kick_attempt_def)
  with h1 h2 h4 h5 show ?thesis by blast
qed

section \<open>Integers as text\<close>

text \<open>\<^verbatim>\<open>int(str(i))\<close> is \<open>i\<close>, so the integer keys of a dict survive the file.\<close>

lemma digit_val_char_of: "d < 10 \<Longrightarrow> digit_val (char_of (48 + d)) = Some d"
  by (simp add: digit_val_def)

lemma digit_not_special:
  "digit_val c = Some v \<Longrightarrow> c \<noteq> CHR ''_'' \<and> c \<noteq> CHR ''-'' \<and> c \<noteq> CHR ''+'' \<and> \<not> py_isspace c"
  by (auto simp: digit_val_def py_isspace_def Let_def split: if_splits)

lemma parse_digits_digit:
  "digit_val c = Some v \<Longrightarrow> parse_digits (c # cs) acc = parse_digits cs (acc * 10 + v)"
  using digit_not_special [of c v] by (cases cs) simp_all

lemma parse_digits_all_digits:
  "list_all (\<lambda>c. digit_val c \<noteq> None) s \<Longrightarrow>
   parse_digits s acc = Some (fold (\<lambda>c a. a * 10 + the (digit_val c)) s acc)"
proof (induction s arbitrary: acc)
  case Nil
  show ?case by simp
next
  case (Cons c s)
  then obtain v where v: "digit_val c = Some v" by auto
  from Cons have "list_all (\<lambda>c. digit_val c \<noteq> None) s" by simp
  then show ?case by (simp add: parse_digits_digit [OF v] Cons.IH v)
qed

lemma digits_all_digits: "list_all (\<lambda>c. digit_val c \<noteq> None) (digits n)"
proof (induction n rule: digits.induct)
  case (1 n)
  show ?case
  proof (cases "n < 10")
    case True
    then show ?thesis by (simp add: digits.simps [of n] digit_val_char_of)
  next
    case False
    with 1 show ?thesis by (simp add: digits.simps [of n] digit_val_char_of)
  qed
qed

lemma digits_value: "fold (\<lambda>c a. a * 10 + the (digit_val c)) (digits n) 0 = n"
proof (induction n rule: digits.induct)
  case (1 n)
  show ?case
  proof (cases "n < 10")
    case True
    then show ?thesis by (simp add: digits.simps [of n] digit_val_char_of)
  next
    case False
    with 1 have "fold (\<lambda>c a. a * 10 + the (digit_val c)) (digits (n div 10)) 0 = n div 10" by simp
    with False show ?thesis by (simp add: digits.simps [of n] digit_val_char_of)
  qed
qed

lemma digits_nonempty: "digits n \<noteq> []"
  by (subst digits.simps) simp

lemma parse_nat_digits: "parse_nat (digits n) = Some n"
proof -
  obtain c cs where s: "digits n = c # cs"
    using digits_nonempty [of n] by (cases "digits n") auto
  have all: "list_all (\<lambda>c. digit_val c \<noteq> None) (c # cs)"
    using digits_all_digits [of n] by (simp add: s)
  then obtain v where v: "digit_val c = Some v" by auto
  have "parse_nat (c # cs) = parse_digits (c # cs) 0"
    by (simp add: parse_nat_def v parse_digits_digit [OF v])
  also have "\<dots> = Some (fold (\<lambda>c a. a * 10 + the (digit_val c)) (c # cs) 0)"
    by (rule parse_digits_all_digits [OF all])
  also have "\<dots> = Some n"
    using digits_value [of n] by (simp only: s)
  finally show ?thesis by (simp only: s)
qed

lemma strip_no_space: "list_all (\<lambda>c. \<not> py_isspace c) s \<Longrightarrow> strip s = s"
proof -
  assume a: "list_all (\<lambda>c. \<not> py_isspace c) s"
  have d: "dropWhile py_isspace t = t" if "list_all (\<lambda>c. \<not> py_isspace c) t" for t
    using that by (cases t) simp_all
  from a have "list_all (\<lambda>c. \<not> py_isspace c) (rev s)" by (simp add: list_all_iff)
  with a show ?thesis by (simp add: strip_def d)
qed

lemma digits_no_space: "list_all (\<lambda>c. \<not> py_isspace c) (digits n)"
  using digits_all_digits [of n] digit_not_special by (auto simp: list_all_iff)

lemma py_int_py_str: "py_int (py_str i) = Some i"
proof (cases "i < 0")
  case True
  have "list_all (\<lambda>c. \<not> py_isspace c) (CHR ''-'' # digits (nat (- i)))"
    using digits_no_space [of "nat (- i)"] by (simp add: py_isspace_def)
  then have "strip (CHR ''-'' # digits (nat (- i))) = CHR ''-'' # digits (nat (- i))"
    by (rule strip_no_space)
  with True show ?thesis
    by (simp add: py_int_def py_str_def parse_nat_digits)
next
  case False
  obtain c cs where s: "digits (nat i) = c # cs"
    using digits_nonempty [of "nat i"] by (cases "digits (nat i)") auto
  have "digit_val c \<noteq> None"
    using digits_all_digits [of "nat i"] by (simp add: s)
  then obtain v where "digit_val c = Some v" by auto
  then have ns: "c \<noteq> CHR ''-'' \<and> c \<noteq> CHR ''+''"
    using digit_not_special by blast
  have st: "strip (digits (nat i)) = digits (nat i)"
    by (rule strip_no_space [OF digits_no_space])
  have "parse_nat (c # cs) = Some (nat i)"
    using parse_nat_digits [of "nat i"] by (simp only: s)
  with False ns st show ?thesis
    by (simp add: py_int_def py_str_def s)
qed

lemma update_fresh_key: "k \<notin> fst ` set al \<Longrightarrow> AList.update k v al = al @ [(k, v)]"
  by (induction al) auto

lemma int_keys_str_keys:
  "distinct (map fst (acc @ kvs)) \<Longrightarrow> int_keys (str_keys kvs) acc = Some (acc @ kvs)"
proof (induction kvs arbitrary: acc)
  case Nil
  show ?case by (simp add: str_keys_def)
next
  case (Cons kv kvs)
  obtain k v where kv: "kv = (k, v)" by (cases kv)
  from Cons.prems have fresh: "k \<notin> fst ` set acc" by (auto simp: kv)
  from Cons.prems have "distinct (map fst ((acc @ [(k, v)]) @ kvs))" by (simp add: kv)
  then have "int_keys (str_keys kvs) (acc @ [(k, v)]) = Some ((acc @ [(k, v)]) @ kvs)"
    by (rule Cons.IH)
  then show ?case
    using fresh by (simp add: kv str_keys_def py_int_py_str update_fresh_key)
qed

text \<open>The text of a number that is not negative starts with a digit.\<close>

lemma py_str_nonneg_no_minus: "0 \<le> n \<Longrightarrow> \<not> startswith (py_str n) ''-100''"
proof -
  assume n: "0 \<le> n"
  obtain c cs where s: "digits (nat n) = c # cs"
    using digits_nonempty [of "nat n"] by (cases "digits (nat n)") auto
  have "digit_val c \<noteq> None"
    using digits_all_digits [of "nat n"] by (simp add: s)
  then obtain v where "digit_val c = Some v" by auto
  then have "c \<noteq> CHR ''-''"
    using digit_not_special by blast
  with n show ?thesis
    by (simp add: py_str_def s startswith_def)
qed

section \<open>Evaluating the examples\<close>

lemmas eval_defs =
  handle_text_input_def button_handler_def menu_action_def ask_action_def prompts_def
  startswith_def is_admin_def is_owner_def set_wizard_def emit_def
  example_world_def example_config_def module_init_def owner_def no_wizard_def
  free_channel_name_def free_channel_link_def free_channel_chat_id_def
  paid_channel_name_def paid_channel_link_def manage_ids_def
  save_data_def makedirs_def dirname_def get_or_def Let_def

lemmas py_int_defs = py_int_def strip_def py_isspace_def parse_nat_def digit_val_def

lemma py_int_abc: "py_int ''abc'' = None"
  by (simp add: py_int_def strip_def py_isspace_def parse_nat_def digit_val_def)

lemma py_int_12345: "py_int ''12345'' = Some 12345"
  by (simp add: py_int_defs)

lemma no_prefix_12345: "\<not> startswith (py_str 12345) ''-100''"
  by (rule py_str_nonneg_no_minus) simp

lemma wizard_at_chat_id_fields:
  "next_step (user_data wizard_at_chat_id 1) = Some awaiting_free_channel_chat_id"
  "new_channel_name (user_data wizard_at_chat_id 1) = Some ''Batch A''"
  "new_channel_link (user_data wizard_at_chat_id 1) = Some ''https://t.me/+abc''"
  "FREE_CHANNELS wizard_at_chat_id = FREE_CHANNELS example_world"
  "ADMIN_IDS wizard_at_chat_id = [2, 1]"
  by (simp_all add: wizard_at_chat_id_def eval_defs)

lemma blocked_visitor_world_fields:
  "BLOCKED_USER_IDS blocked_visitor_world = {|5|}"
  by (simp add: blocked_visitor_world_def eval_defs py_int_defs)

lemma blocked_admin_world_fields:
  "BLOCKED_USER_IDS blocked_admin_world = {|2|}"
  "ADMIN_IDS blocked_admin_world = [1, 2]"
  "next_step (user_data blocked_admin_world 2) = Some awaiting_post_message"
  "FREE_CHANNELS blocked_admin_world = FREE_CHANNELS example_world"
  by (simp_all add: blocked_admin_world_def eval_defs py_int_defs admin2_def)

section \<open>The wizards\<close>

lemma handle_text_input_pending:
  "is_admin w (uid u) \<Longrightarrow> next_step (user_data w (uid u)) = Some state \<Longrightarrow>
   handle_text_input cfg p (Some u) txt w =
     run_step cfg p (uid u) state txt (set_wizard (uid u) (\<lambda>z. z\<lparr>next_step := None\<rparr>) w)"
  by (simp add: handle_text_input_def)

lemma is_admin_set_wizard [simp]: "is_admin (set_wizard u f w) v = is_admin w v"
  by (simp add: is_admin_def)

lemma is_admin_save_data [simp]: "is_admin (save_data cfg w) v = is_admin w v"
  by (simp add: is_admin_def)

subsection \<open>Add free channel: an invalid chat id\<close>

text \<open>
  Whatever the invalid text is, the catalogue, the links and the disk stay as they
  were, and the pending step, the name and the link are gone.
\<close>

lemma free_channel_bad_id:
  assumes "is_admin w (uid u)"
    and "next_step (user_data w (uid u)) = Some awaiting_free_channel_chat_id"
    and "py_int txt = None \<or> (\<exists>n. py_int txt = Some n \<and> \<not> startswith (py_str n) ''-100'')"
  shows "FREE_CHANNELS (handle_text_input cfg p (Some u) txt w) = FREE_CHANNELS w \<and>
    FREE_CHANNEL_LINKS (handle_text_input cfg p (Some u) txt w) = FREE_CHANNEL_LINKS w \<and>
    disk (handle_text_input cfg p (Some u) txt w) = disk w \<and>
    next_step (user_data (handle_text_input cfg p (Some u) txt w) (uid u)) = None \<and>
    new_channel_name (user_data (handle_text_input cfg p (Some u) txt w) (uid u)) = None \<and>
    new_channel_link (user_data (handle_text_input cfg p (Some u) txt w) (uid u)) = None"
  using assms(3)
  by (auto simp: handle_text_input_pending [OF assms(1) assms(2)] free_channel_chat_id_def Let_def)

text \<open>
  C1. In the add-free-channel wizard an invalid id at the third step (a text that is
  not a number, or a number that does not start with -100) leaves the catalogue and
  the links unchanged; the claim goes on to say that the wizard stays on the third
  step with the name and the link kept. The source answers with its retry prompt but
  has popped the step, the name and the link: here the owner has sent ``Batch A'' and
  the link, then ``abc'' (and, in a second run, ``12345''), and the well-formed id sent
  as the retry is ignored.
\<close>

theorem add_free_channel_bad_id_ends_wizard:
  "next_step (user_data wizard_at_chat_id 1) = Some awaiting_free_channel_chat_id \<and>
   new_channel_name (user_data wizard_at_chat_id 1) = Some ''Batch A'' \<and>
   new_channel_link (user_data wizard_at_chat_id 1) = Some ''https://t.me/+abc'' \<and>
   (let w4 = handle_text_input example_config flaky_platform (Some owner) ''abc'' wizard_at_chat_id
    in FREE_CHANNELS w4 = FREE_CHANNELS wizard_at_chat_id \<and>
       FREE_CHANNEL_LINKS w4 = FREE_CHANNEL_LINKS wizard_at_chat_id \<and>
       sent w4 = sent wizard_at_chat_id @ [Reply (Channels Invalid_Chat_Id_Not_Number)] \<and>
       next_step (user_data w4 1) = None \<and>
       new_channel_name (user_data w4 1) = None \<and>
       new_channel_link (user_data w4 1) = None \<and>
       handle_text_input example_config flaky_platform (Some owner) ''-1001234567890'' w4 = w4) \<and>
   (let w4 = handle_text_input example_config flaky_platform (Some owner) ''12345'' wizard_at_chat_id
    in FREE_CHANNELS w4 = FREE_CHANNELS wizard_at_chat_id \<and>
       sent w4 = sent wizard_at_chat_id @ [Reply (Channels Invalid_Chat_Id_Prefix)] \<and>
       next_step (user_data w4 1) = None \<and>
       new_channel_name (user_data w4 1) = None \<and>
       new_channel_link (user_data w4 1) = None \<and>
       handle_text_input example_config flaky_platform (Some owner) ''-1001234567890'' w4 = w4)"
  by (simp add: wizard_at_chat_id_fields handle_text_input_def is_admin_def owner_def
      free_channel_chat_id_def py_int_abc py_int_12345 no_prefix_12345 Let_def)

subsection \<open>Add paid channel\<close>

text \<open>
  C8, as stated: three chained steps (name, link, numeric chat id), the last of which
  alone changes the catalogue. In the source the link is the last step: after the name
  and the link the entry is in the catalogue and no step is pending, and a chat id sent
  next is ignored.
\<close>

theorem add_paid_channel_three_steps_counterexample:
  "next_step (user_data paid_wizard_start 1) = Some awaiting_paid_channel_name \<and>
   (let w1 = handle_text_input example_config flaky_platform (Some owner) ''Gold'' paid_wizard_start;
        w2 = handle_text_input example_config flaky_platform (Some owner) ''https://t.me/+p'' w1
    in PAID_CHANNELS w1 = [] \<and>
       PAID_CHANNELS w2 = [html_entry ''https://t.me/+p'' ''Gold''] \<and>
       next_step (user_data w2 1) = None \<and>
       handle_text_input example_config flaky_platform (Some owner) ''-1001234567890'' w2 = w2)"
  by (simp add: paid_wizard_start_def eval_defs)

text \<open>
  C8, amended. The add-paid-channel wizard has two chained steps, the name and then the
  invite link. The name step changes nothing in the catalogue: it stores the name and
  makes the link step pending. The link step, the final one, appends the entry
  formatted from the stored name and the link, and leaves no pending step and no
  stored name.
\<close>

theorem add_paid_channel_two_steps:
  assumes "is_admin w (uid u)"
    and "next_step (user_data w (uid u)) = Some awaiting_paid_channel_name"
  shows "PAID_CHANNELS (handle_text_input cfg p (Some u) name w) = PAID_CHANNELS w \<and>
     next_step (user_data (handle_text_input cfg p (Some u) name w) (uid u)) = Some awaiting_paid_channel_link \<and>
     new_channel_name (user_data (handle_text_input cfg p (Some u) name w) (uid u)) = Some name \<and>
     PAID_CHANNELS (handle_text_input cfg p (Some u) link (handle_text_input cfg p (Some u) name w)) =
       PAID_CHANNELS w @ [html_entry link name] \<and>
     next_step (user_data (handle_text_input cfg p (Some u) link (handle_text_input cfg p (Some u) name w)) (uid u)) = None \<and>
     new_channel_name (user_data (handle_text_input cfg p (Some u) link (handle_text_input cfg p (Some u) name w)) (uid u)) = None"
proof -
  let ?w1 = "handle_text_input cfg p (Some u) name w"
  have w1: "?w1 = paid_channel_name (uid u) name (set_wizard (uid u) (\<lambda>z. z\<lparr>next_step := None\<rparr>) w)"
    using assms by (simp add: handle_text_input_pending)
  have a1: "is_admin ?w1 (uid u)"
    using assms(1) by (simp add: w1 paid_channel_name_def)
  have n1: "next_step (user_data ?w1 (uid u)) = Some awaiting_paid_channel_link"
    by (simp add: w1 paid_channel_name_def)
  have w2: "handle_text_input cfg p (Some u) link ?w1 =
      paid_channel_link cfg (uid u) link (set_wizard (uid u) (\<lambda>z. z\<lparr>next_step := None\<rparr>) ?w1)"
    using a1 n1 by (simp add: handle_text_input_pending)
  show ?thesis
    unfolding w2 unfolding w1
    by (simp add: paid_channel_name_def paid_channel_link_def get_or_def Let_def)
qed

theorem add_paid_channel_two_steps_witness:
  "is_admin paid_wizard_start (uid owner) \<and>
   next_step (user_data paid_wizard_start (uid owner)) = Some awaiting_paid_channel_name \<and>
   PAID_CHANNELS paid_wizard_start = [] \<and>
   PAID_CHANNELS
     (handle_text_input example_config flaky_platform (Some owner) ''https://t.me/+p''
        (handle_text_input example_config flaky_platform (Some owner) ''Gold'' paid_wizard_start)) =
     [html_entry ''https://t.me/+p'' ''Gold'']"
proof -
  have h1: "is_admin paid_wizard_start (uid owner)"
    by (simp add: paid_wizard_start_def eval_defs)
  have h2: "next_step (user_data paid_wizard_start (uid owner)) = Some awaiting_paid_channel_name"
    by (simp add: paid_wizard_start_def eval_defs)
  have h3: "PAID_CHANNELS paid_wizard_start = []"
    by (simp add: paid_wizard_start_def eval_defs)
  from add_paid_channel_two_steps [OF h1 h2, of example_config flaky_platform "''Gold''" "''https://t.me/+p''"]
  have "PAID_CHANNELS
     (handle_text_input example_config flaky_platform (Some owner) ''https://t.me/+p''
        (handle_text_input example_config flaky_platform (Some owner) ''Gold'' paid_wizard_start)) =
     PAID_CHANNELS paid_wizard_start @ [html_entry ''https://t.me/+p'' ''Gold'']"
    by blast
  with h1 h2 h3 show ?thesis by simp
qed

section \<open>Blocked senders\<close>

text \<open>
  C3, as stated: for a sender in BlockList no handler mutates state, renders a menu or
  sends a reply. Three handlers answer otherwise. A button press of the blocked user 5
  is answered with an alert; the id command replies with the id; and the text of admin
  2, who is blocked, is posted to the free channels.
\<close>

theorem blocked_sender_counterexample:
  "uid visitor |\<in>| BLOCKED_USER_IDS blocked_visitor_world \<and>
   sent (snd (button_handler example_config flaky_platform visitor ''show_free_channels'' blocked_visitor_world)) =
     sent blocked_visitor_world @ [Answer (Some (Notice You_Are_Blocked)) True] \<and>
   sent (id_command (Some private_chat) (Some visitor) blocked_visitor_world) =
     sent blocked_visitor_world @ [Reply (Notice (Id_Private 5))] \<and>
   uid admin2 |\<in>| BLOCKED_USER_IDS blocked_admin_world \<and>
   sent (handle_text_input example_config flaky_platform (Some admin2) ''hello'' blocked_admin_world) =
     sent blocked_admin_world @
       [SendMessage (- 1005) (Notice (User_Text ''hello'')),
        SendMessage (- 1006) (Notice (User_Text ''hello'')),
        Reply (Users (Post_Report 2 []))]"
  by (simp add: blocked_visitor_world_fields blocked_admin_world_fields visitor_def admin2_def
      button_handler_def id_command_def private_chat_def handle_text_input_def is_admin_def
      post_def emit_def set_wizard_def example_world_def flaky_platform_def Let_def)

text \<open>
  C3, amended. For a sender in BlockList the start and the help command return at
  once: the state is unchanged and no call is made. A button press is answered with the
  ``you are blocked'' alert and nothing else: no state is changed and no menu is
  rendered, whatever the token. A text message of a blocked sender who is not an admin
  is ignored.
\<close>

theorem blocked_sender_is_stopped:
  assumes "uid u |\<in>| BLOCKED_USER_IDS w"
  shows "start_command cfg p (Some u) w = w \<and>
     help_command cfg p (Some u) w = w \<and>
     button_handler cfg p u dat w = (None, w\<lparr>sent := sent w @ [Answer (Some (Notice You_Are_Blocked)) True]\<rparr>) \<and>
     (\<not> is_admin w (uid u) \<longrightarrow> handle_text_input cfg p (Some u) txt w = w)"
  using assms
  by (simp add: start_command_def help_command_def button_handler_def handle_text_input_def emit_def)

theorem blocked_sender_is_stopped_witness:
  "uid visitor |\<in>| BLOCKED_USER_IDS blocked_visitor_world \<and>
   \<not> is_admin blocked_visitor_world (uid visitor) \<and>
   start_command example_config flaky_platform (Some visitor) blocked_visitor_world = blocked_visitor_world \<and>
   help_command example_config flaky_platform (Some visitor) blocked_visitor_world = blocked_visitor_world \<and>
   snd (button_handler example_config flaky_platform visitor ''verify_join'' blocked_visitor_world) =
     blocked_visitor_world\<lparr>sent := sent blocked_visitor_world @ [Answer (Some (Notice You_Are_Blocked)) True]\<rparr> \<and>
   handle_text_input example_config flaky_platform (Some visitor) ''hello'' blocked_visitor_world = blocked_visitor_world"
proof -
  have h1: "uid visitor |\<in>| BLOCKED_USER_IDS blocked_visitor_world"
    by (simp add: blocked_visitor_world_fields visitor_def)
  have h2: "\<not> is_admin blocked_visitor_world (uid visitor)"
    by (simp add: blocked_visitor_world_def eval_defs py_int_defs visitor_def)
  from blocked_sender_is_stopped [OF h1, of example_config flaky_platform "''verify_join''" "''hello''"] h1 h2
  show ?thesis by simp
qed

section \<open>The owner and the admin list\<close>

lemma load_data_ADMIN_IDS:
  "ADMIN_IDS (load_data cfg w) =
     (case disk w (DATA_FILE cfg) of
        Some (Doc d) \<Rightarrow> get_or (doc_ADMIN_IDS d) (ADMIN_IDS w)
      | _ \<Rightarrow> ADMIN_IDS w)"
  by (simp add: load_data_def Let_def split: option.splits filedata.splits)

lemma load_data_missing:
  "disk w (DATA_FILE cfg) = None \<Longrightarrow> load_data cfg w = save_data cfg w"
  by (simp add: load_data_def)

lemma save_data_disk:
  "dirname (DATA_FILE cfg) \<noteq> [] \<Longrightarrow>
   disk (save_data cfg w) = (disk w)(DATA_FILE cfg \<mapsto> Doc (snapshot_of w))"
  by (simp add: save_data_def makedirs_def)

lemma save_data_no_directory:
  "dirname (DATA_FILE cfg) = [] \<Longrightarrow> save_data cfg w = w"
  by (simp add: save_data_def makedirs_def)

lemma dirname_example: "dirname ''/data/bot_data.json'' = ''/data''"
  by (simp add: dirname_def)

lemma dirname_default: "dirname ''bot_data.json'' = []"
  by (simp add: dirname_def)

lemma old_disk_file:
  "old_disk (DATA_FILE example_config) =
     Some (Doc (snapshot_of (module_init old_owner_config Map.empty)))"
proof -
  have "dirname (DATA_FILE old_owner_config) \<noteq> []"
    by (simp add: old_owner_config_def example_config_def dirname_example)
  then show ?thesis
    by (simp add: old_disk_def startup_def load_data_missing save_data_disk module_init_def
        old_owner_config_def)
qed

lemma broadcast_loop_ADMIN_IDS:
  "ADMIN_IDS (snd (broadcast_loop p txt us a b w)) = ADMIN_IDS w"
  by (induction us arbitrary: a b w) (simp_all add: Let_def)

lemma post_loop_ADMIN_IDS:
  "ADMIN_IDS (snd (post_loop p txt chs a f w)) = ADMIN_IDS w"
  by (induction chs arbitrary: a f w) (simp_all add: Let_def)

lemma broadcast_ADMIN_IDS: "ADMIN_IDS (broadcast p txt w) = ADMIN_IDS w"
  by (simp add: broadcast_def Let_def case_prod_beta broadcast_loop_ADMIN_IDS)

lemma post_ADMIN_IDS: "ADMIN_IDS (post p txt w) = ADMIN_IDS w"
  by (simp add: post_def case_prod_beta post_loop_ADMIN_IDS)

lemma manage_ids_owner:
  "OWNER_ID cfg \<in> set (ADMIN_IDS w) \<Longrightarrow> OWNER_ID cfg \<in> set (ADMIN_IDS (manage_ids cfg user state txt w))"
  by (simp add: manage_ids_def split: option.splits)

lemma run_step_owner:
  "OWNER_ID cfg \<in> set (ADMIN_IDS w) \<Longrightarrow> OWNER_ID cfg \<in> set (ADMIN_IDS (run_step cfg p user state txt w))"
proof (cases state)
  case awaiting_broadcast_message
  then show "OWNER_ID cfg \<in> set (ADMIN_IDS w) \<Longrightarrow> ?thesis" by (simp add: broadcast_ADMIN_IDS)
next
  case awaiting_post_message
  then show "OWNER_ID cfg \<in> set (ADMIN_IDS w) \<Longrightarrow> ?thesis" by (simp add: post_ADMIN_IDS)
next
  case awaiting_add_admin_id
  then show "OWNER_ID cfg \<in> set (ADMIN_IDS w) \<Longrightarrow> ?thesis" by (simp add: manage_ids_owner)
next
  case awaiting_remove_admin_id
  then show "OWNER_ID cfg \<in> set (ADMIN_IDS w) \<Longrightarrow> ?thesis" by (simp add: manage_ids_owner)
next
  case awaiting_block_user_id
  then show "OWNER_ID cfg \<in> set (ADMIN_IDS w) \<Longrightarrow> ?thesis" by (simp add: manage_ids_owner)
next
  case awaiting_unblock_user_id
  then show "OWNER_ID cfg \<in> set (ADMIN_IDS w) \<Longrightarrow> ?thesis" by (simp add: manage_ids_owner)
next
  case awaiting_free_channel_name
  then show "OWNER_ID cfg \<in> set (ADMIN_IDS w) \<Longrightarrow> ?thesis" by (simp add: free_channel_name_def)
next
  case awaiting_free_channel_link
  then show "OWNER_ID cfg \<in> set (ADMIN_IDS w) \<Longrightarrow> ?thesis" by (simp add: free_channel_link_def)
next
  case awaiting_free_channel_chat_id
  then show "OWNER_ID cfg \<in> set (ADMIN_IDS w) \<Longrightarrow> ?thesis"
    by (simp add: free_channel_chat_id_def Let_def split: option.splits)
next
  case awaiting_remove_free_channel_num
  then show "OWNER_ID cfg \<in> set (ADMIN_IDS w) \<Longrightarrow> ?thesis"
    by (simp add: remove_free_channel_num_def Let_def split: option.splits)
next
  case awaiting_paid_channel_name
  then show "OWNER_ID cfg \<in> set (ADMIN_IDS w) \<Longrightarrow> ?thesis" by (simp add: paid_channel_name_def)
next
  case awaiting_paid_channel_link
  then show "OWNER_ID cfg \<in> set (ADMIN_IDS w) \<Longrightarrow> ?thesis" by (simp add: paid_channel_link_def Let_def)
next
  case awaiting_remove_paid_channel_num
  then show "OWNER_ID cfg \<in> set (ADMIN_IDS w) \<Longrightarrow> ?thesis"
    by (simp add: remove_paid_channel_num_def Let_def split: option.splits)
qed

lemma handle_text_input_owner:
  "OWNER_ID cfg \<in> set (ADMIN_IDS w) \<Longrightarrow>
   OWNER_ID cfg \<in> set (ADMIN_IDS (handle_text_input cfg p user txt w))"
  by (simp add: handle_text_input_def run_step_owner split: option.splits)

text \<open>
  Outside \<^verbatim>\<open>load_data\<close> the owner stays an admin: a configured owner (not 0) is in
  the list once the module is initialised, every text-input step keeps the owner in
  it (the add-admin and the remove-admin wizard among them), and the role of a user
  in the list is never regular.
\<close>

lemma owner_kept_outside_load:
  "(OWNER_ID cfg \<noteq> 0 \<longrightarrow> OWNER_ID cfg \<in> set (ADMIN_IDS (module_init cfg d))) \<and>
   (OWNER_ID cfg \<in> set (ADMIN_IDS w) \<longrightarrow>
      OWNER_ID cfg \<in> set (ADMIN_IDS (handle_text_input cfg p user txt w))) \<and>
   (u \<in> set (ADMIN_IDS w) \<longrightarrow> classify cfg w u \<noteq> Regular)"
proof (intro conjI impI)
  assume "OWNER_ID cfg \<noteq> 0"
  then show "OWNER_ID cfg \<in> set (ADMIN_IDS (module_init cfg d))"
    by (simp add: module_init_def)
next
  assume "OWNER_ID cfg \<in> set (ADMIN_IDS w)"
  then show "OWNER_ID cfg \<in> set (ADMIN_IDS (handle_text_input cfg p user txt w))"
    by (rule handle_text_input_owner)
next
  assume "u \<in> set (ADMIN_IDS w)"
  then show "classify cfg w u \<noteq> Regular"
    by (simp add: classify_def is_admin_def)
qed

text \<open>The remove-admin wizard refuses the owner's own id.\<close>

lemma remove_admin_refuses_owner:
  "next_step (user_data remove_admin_start 1) = Some awaiting_remove_admin_id \<and>
   ADMIN_IDS (handle_text_input example_config flaky_platform (Some owner) ''1'' remove_admin_start) =
     [2, 1] \<and>
   sent (handle_text_input example_config flaky_platform (Some owner) ''1'' remove_admin_start) =
     sent remove_admin_start @ [Reply (Users Cannot_Remove_Owner)]"
  by (simp add: remove_admin_start_def eval_defs py_int_defs)

text \<open>
  Startup, for a configured owner: the owner is an admin after \<^verbatim>\<open>load_data\<close> exactly
  when the file is missing, is unreadable, has no \<^verbatim>\<open>ADMIN_IDS\<close> key, or has a list
  that holds the owner. A process restarted on the snapshot it wrote itself keeps the
  owner.
\<close>

lemma startup_owner_iff:
  assumes "OWNER_ID cfg \<noteq> 0"
  shows "OWNER_ID cfg \<in> set (ADMIN_IDS (startup cfg d)) \<longleftrightarrow>
    (case d (DATA_FILE cfg) of
       None \<Rightarrow> True
     | Some Unreadable \<Rightarrow> True
     | Some (Doc s) \<Rightarrow>
         (case doc_ADMIN_IDS s of None \<Rightarrow> True | Some a \<Rightarrow> OWNER_ID cfg \<in> set a))"
  using assms
  by (simp add: startup_def load_data_ADMIN_IDS module_init_def get_or_def
      split: option.splits filedata.splits)

lemma restart_on_own_snapshot_keeps_owner:
  assumes "OWNER_ID cfg \<in> set (ADMIN_IDS w)" and "dirname (DATA_FILE cfg) \<noteq> []"
  shows "OWNER_ID cfg \<in> set (ADMIN_IDS (startup cfg (disk (save_data cfg w))))"
  using assms(1)
  by (simp add: startup_def load_data_ADMIN_IDS module_init_def save_data_disk [OF assms(2)]
      snapshot_of_def get_or_def)

text \<open>
  C2. The owner id is a member of AdminSet at startup and after every operation that
  can change AdminSet, loading the snapshot among them, and the role of a member is
  never regular. Lines 79--81 append the owner (``Add Owner to Admin list
  automatically''), and line 114 of \<^verbatim>\<open>load_data\<close> then replaces the list by the one
  of the file. Owner 1, with admin 2 from the environment, starts on the disk left by
  a deployment whose owner was 7: the owner is in the list before \<^verbatim>\<open>load_data\<close> and
  the list is [7] after it, so the owner is no admin, and the text the owner sends is
  ignored.
\<close>

theorem owner_dropped_by_load:
  "OWNER_ID example_config = 1 \<and>
   old_disk (DATA_FILE example_config) =
     Some (Doc (snapshot_of (module_init old_owner_config Map.empty))) \<and>
   doc_ADMIN_IDS (snapshot_of (module_init old_owner_config Map.empty)) = Some [7] \<and>
   ADMIN_IDS (module_init example_config old_disk) = [2, 1] \<and>
   ADMIN_IDS (startup example_config old_disk) = [7] \<and>
   is_owner example_config (uid owner) \<and>
   \<not> is_admin (startup example_config old_disk) (uid owner) \<and>
   handle_text_input example_config flaky_platform (Some owner) ''7''
     (startup example_config old_disk) = startup example_config old_disk"
proof -
  have a: "ADMIN_IDS (startup example_config old_disk) = [7]"
    by (simp add: startup_def load_data_ADMIN_IDS module_init_def old_disk_file snapshot_of_def
        get_or_def old_owner_config_def)
  have b: "ADMIN_IDS (module_init example_config old_disk) = [2, 1]"
    by (simp add: module_init_def example_config_def)
  have c: "doc_ADMIN_IDS (snapshot_of (module_init old_owner_config Map.empty)) = Some [7]"
    by (simp add: snapshot_of_def module_init_def old_owner_config_def)
  have d: "\<not> is_admin (startup example_config old_disk) (uid owner)"
    by (simp add: is_admin_def a owner_def)
  have e: "handle_text_input example_config flaky_platform (Some owner) ''7''
     (startup example_config old_disk) = startup example_config old_disk"
    using d by (simp add: handle_text_input_def)
  have f: "is_owner example_config (uid owner)" "OWNER_ID example_config = 1"
    by (simp_all add: is_owner_def owner_def example_config_def)
  from a b c d e f old_disk_file show ?thesis by simp
qed

section \<open>The snapshot\<close>

subsection \<open>Round trip\<close>

text \<open>
  When the data path has a directory part, a fresh process that loads what
  \<^verbatim>\<open>save_data\<close> wrote has the same admins, catalogues, links, block list and chats.
  (The keys of a dict are distinct.)
\<close>

lemma snapshot_roundtrip:
  assumes "dirname (DATA_FILE cfg) \<noteq> []"
    and "distinct (map fst (FREE_CHANNELS w))"
    and "distinct (map fst (FREE_CHANNEL_LINKS w))"
    and "distinct (map fst (ACTIVE_CHATS w))"
  shows "ADMIN_IDS (startup cfg (disk (save_data cfg w))) = ADMIN_IDS w \<and>
    FREE_CHANNELS (startup cfg (disk (save_data cfg w))) = FREE_CHANNELS w \<and>
    FREE_CHANNEL_LINKS (startup cfg (disk (save_data cfg w))) = FREE_CHANNEL_LINKS w \<and>
    PAID_CHANNELS (startup cfg (disk (save_data cfg w))) = PAID_CHANNELS w \<and>
    BLOCKED_USER_IDS (startup cfg (disk (save_data cfg w))) = BLOCKED_USER_IDS w \<and>
    ACTIVE_CHATS (startup cfg (disk (save_data cfg w))) = ACTIVE_CHATS w"
proof -
  have k1: "int_keys (str_keys (FREE_CHANNELS w)) [] = Some (FREE_CHANNELS w)"
    using int_keys_str_keys [of "[]" "FREE_CHANNELS w"] assms(2) by simp
  have k2: "int_keys (str_keys (FREE_CHANNEL_LINKS w)) [] = Some (FREE_CHANNEL_LINKS w)"
    using int_keys_str_keys [of "[]" "FREE_CHANNEL_LINKS w"] assms(3) by simp
  have k3: "int_keys (str_keys (ACTIVE_CHATS w)) [] = Some (ACTIVE_CHATS w)"
    using int_keys_str_keys [of "[]" "ACTIVE_CHATS w"] assms(4) by simp
  show ?thesis
    by (simp add: startup_def save_data_disk [OF assms(1)] load_data_def module_init_def
        snapshot_of_def get_or_def k1 k2 k3 Let_def)
qed

text \<open>
  C7. Round trip: writing the snapshot and loading it in a fresh process reproduces the
  registry. On the fallback path \<^verbatim>\<open>bot_data.json\<close> the directory part is empty,
  \<^verbatim>\<open>os.makedirs('')\<close> raises inside \<^verbatim>\<open>save_data\<close>, nothing is written, and the fresh
  process starts from the defaults: the two free channels are gone. On the path
  \<^verbatim>\<open>/data/bot_data.json\<close> the same state comes back.
\<close>

theorem snapshot_lost_on_default_path:
  "DATA_FILE default_path_config = ''bot_data.json'' \<and>
   dirname (DATA_FILE default_path_config) = [] \<and>
   FREE_CHANNELS example_world = [(- 1005, ''Batch A''), (- 1006, ''Batch B'')] \<and>
   disk (save_data default_path_config example_world) = Map.empty \<and>
   FREE_CHANNELS (startup default_path_config (disk (save_data default_path_config example_world))) = [] \<and>
   FREE_CHANNEL_LINKS (startup default_path_config (disk (save_data default_path_config example_world))) = [] \<and>
   FREE_CHANNELS (startup example_config (disk (save_data example_config example_world))) =
     FREE_CHANNELS example_world"
proof -
  have lost: "DATA_FILE default_path_config = ''bot_data.json'' \<and>
     dirname (DATA_FILE default_path_config) = [] \<and>
     FREE_CHANNELS example_world = [(- 1005, ''Batch A''), (- 1006, ''Batch B'')] \<and>
     disk (save_data default_path_config example_world) = Map.empty \<and>
     FREE_CHANNELS (startup default_path_config (disk (save_data default_path_config example_world))) = [] \<and>
     FREE_CHANNEL_LINKS (startup default_path_config (disk (save_data default_path_config example_world))) = []"
    by (simp add: default_path_config_def example_config_def dirname_default save_data_no_directory
        example_world_def startup_def load_data_def module_init_def)
  have d: "dirname (DATA_FILE example_config) \<noteq> []"
    by (simp add: example_config_def dirname_example)
  have k: "distinct (map fst (FREE_CHANNELS example_world))"
    "distinct (map fst (FREE_CHANNEL_LINKS example_world))"
    "distinct (map fst (ACTIVE_CHATS example_world))"
    by (simp_all add: example_world_def module_init_def)
  from snapshot_roundtrip [OF d k]
  have "FREE_CHANNELS (startup example_config (disk (save_data example_config example_world))) =
     FREE_CHANNELS example_world"
    by blast
  with lost show ?thesis by blast
qed

subsection \<open>The user directory\<close>

lemma load_data_USER_DATA: "USER_DATA (load_data cfg w) = USER_DATA w"
  by (simp add: load_data_def Let_def split: option.splits filedata.splits)

text \<open>
  C4, as stated: a directory entry present at checkpoint time is there again after a
  restart. User 5 has an entry, the snapshot is written, and the restarted process has
  no entry for 5.
\<close>

theorem user_directory_counterexample:
  "map_of (USER_DATA visited_world) 5 = Some \<lparr>full_name = ''Vi Sitor'', username = None\<rparr> \<and>
   disk (save_data example_config visited_world) (DATA_FILE example_config) =
     Some (Doc (snapshot_of visited_world)) \<and>
   map_of (USER_DATA (startup example_config (disk (save_data example_config visited_world)))) 5 = None"
proof -
  have d: "dirname (DATA_FILE example_config) \<noteq> []"
    by (simp add: example_config_def dirname_example)
  have "map_of (USER_DATA visited_world) 5 = Some \<lparr>full_name = ''Vi Sitor'', username = None\<rparr>"
    by (simp add: visited_world_def start_command_def visitor_def classify_def is_owner_def
        is_admin_def is_user_member_of_channel_def remove_user_from_free_channels_def
        example_world_def example_config_def module_init_def flaky_platform_def Let_def)
  moreover have "disk (save_data example_config visited_world) (DATA_FILE example_config) =
     Some (Doc (snapshot_of visited_world))"
    by (simp add: save_data_disk [OF d])
  moreover have "USER_DATA (startup example_config (disk (save_data example_config visited_world))) = []"
    by (simp add: startup_def load_data_USER_DATA module_init_def)
  ultimately show ?thesis by simp
qed

text \<open>
  C4, amended. The snapshot holds the admins, both catalogues with the links, the block
  list and the active chats, and not the user directory: what \<^verbatim>\<open>save_data\<close> writes
  does not depend on the directory, and after a restart that reloads the snapshot the
  directory is empty.
\<close>

theorem user_directory_not_persisted:
  "USER_DATA (startup cfg d) = [] \<and>
   snapshot_of (w\<lparr>USER_DATA := ud\<rparr>) = snapshot_of w \<and>
   disk (save_data cfg (w\<lparr>USER_DATA := ud\<rparr>)) = disk (save_data cfg w)"
  by (simp add: startup_def load_data_USER_DATA module_init_def snapshot_of_def save_data_def
      split: sum.splits)

subsection \<open>Block user\<close>

text \<open>
  The block step of the owner, for any text that is an integer: an owner or admin id
  is refused and the block list stays; any other id is added, and the snapshot on disk
  is the one of the new state when the data path has a directory part.
\<close>

lemma snapshot_of_save_data [simp]: "snapshot_of (save_data cfg w) = snapshot_of w"
  by (simp add: snapshot_of_def)

lemma snapshot_of_emit [simp]: "snapshot_of (emit c w) = snapshot_of w"
  by (simp add: snapshot_of_def)

lemma block_user_wizard:
  assumes "is_admin w (uid u)" and "is_owner cfg (uid u)"
    and "next_step (user_data w (uid u)) = Some awaiting_block_user_id"
    and "py_int txt = Some t"
  shows "(t = OWNER_ID cfg \<or> t \<in> set (ADMIN_IDS w) \<longrightarrow>
       BLOCKED_USER_IDS (handle_text_input cfg p (Some u) txt w) = BLOCKED_USER_IDS w \<and>
       sent (handle_text_input cfg p (Some u) txt w) = sent w @ [Reply (Users Cannot_Block_Admin)]) \<and>
    (t \<noteq> OWNER_ID cfg \<and> t \<notin> set (ADMIN_IDS w) \<longrightarrow>
       BLOCKED_USER_IDS (handle_text_input cfg p (Some u) txt w) = finsert t (BLOCKED_USER_IDS w) \<and>
       sent (handle_text_input cfg p (Some u) txt w) = sent w @ [Reply (Users (User_Blocked t))] \<and>
       (dirname (DATA_FILE cfg) \<noteq> [] \<longrightarrow>
          disk (handle_text_input cfg p (Some u) txt w) (DATA_FILE cfg) =
            Some (Doc (snapshot_of (handle_text_input cfg p (Some u) txt w)))))"
  using assms(2,4)
  by (simp add: handle_text_input_pending [OF assms(1) assms(3)] manage_ids_def save_data_disk)

text \<open>
  C9. Block-user wizard: an owner or admin id is refused; any other id is added to
  BlockList and the snapshot is written before the handler completes. On the fallback
  path \<^verbatim>\<open>bot_data.json\<close> the id 42 is added and the reply is sent, but
  \<^verbatim>\<open>save_data\<close> writes nothing: the disk is still empty and a restarted process has
  an empty block list.
\<close>

theorem block_user_snapshot_not_written:
  "DATA_FILE default_path_config = ''bot_data.json'' \<and>
   is_owner default_path_config (uid owner) \<and>
   next_step (user_data block_wizard_start 1) = Some awaiting_block_user_id \<and>
   disk block_wizard_start = Map.empty \<and>
   (let w1 = handle_text_input default_path_config flaky_platform (Some owner) ''42'' block_wizard_start
    in BLOCKED_USER_IDS w1 = {|42|} \<and>
       sent w1 = sent block_wizard_start @ [Reply (Users (User_Blocked 42))] \<and>
       disk w1 = Map.empty \<and>
       BLOCKED_USER_IDS (startup default_path_config (disk w1)) = {||})"
  by (simp add: block_wizard_start_def default_path_config_def eval_defs startup_def load_data_def
      py_int_def strip_def py_isspace_def parse_nat_def digit_val_def)

end
